theory Spec2Isabelle
  imports Complex_Main
begin

section \<open>Python values used by \<open>calcular_scores\<close>\<close>

text \<open>
  The scoring function of \<open>src/data-profiling.py\<close> (\<open>calcular_scores\<close>, lines 153-329)
  works on a pandas data frame. The embedding keeps its five blocks in the order of the
  source and makes the library behaviour they rely on explicit.

  Conventions of the embedding:
  \<^item> A float is a rational number or NaN (\<open>None\<close>). Arithmetic on floats is exact; the
    rounding error of IEEE doubles is not modelled. NaN propagates through arithmetic,
    every comparison with NaN is false, and \<open>round\<close> of NaN raises \<open>ValueError\<close>.
  \<^item> A Python \<open>str\<close> is a \<open>string\<close> whose characters are the code points 0 to 255
    (Latin-1); character classes follow Python on that range.
  \<^item> A raised exception is the \<open>Inl\<close> branch of a sum.
  \<^item> Quoted source lines are written without accents; the string constants of the
    embedding carry the accented code points (\<open>CHR 0xE7\<close> is the c-cedilla).
\<close>

datatype error = ValueError | ZeroDivisionError

type_synonym pyfloat = "rat option"

definition fsub :: "rat \<Rightarrow> pyfloat \<Rightarrow> pyfloat" where
  "fsub a x = map_option (\<lambda>v. a - v) x"

definition fmul :: "pyfloat \<Rightarrow> rat \<Rightarrow> pyfloat" where
  "fmul x c = map_option (\<lambda>v. v * c) x"

definition fdiv :: "pyfloat \<Rightarrow> rat \<Rightarrow> pyfloat" where
  "fdiv x c = map_option (\<lambda>v. v / c) x"

definition fadd :: "pyfloat \<Rightarrow> pyfloat \<Rightarrow> pyfloat" where
  "fadd x y = (case x of None \<Rightarrow> None | Some a \<Rightarrow> map_option (\<lambda>b. a + b) y)"

definition fminus :: "pyfloat \<Rightarrow> pyfloat \<Rightarrow> pyfloat" where
  "fminus x y = (case x of None \<Rightarrow> None | Some a \<Rightarrow> map_option (\<lambda>b. a - b) y)"

definition fless :: "pyfloat \<Rightarrow> pyfloat \<Rightarrow> bool" where
  "fless x y = (case x of None \<Rightarrow> False | Some a \<Rightarrow> (case y of None \<Rightarrow> False | Some b \<Rightarrow> a < b))"

definition fgt :: "pyfloat \<Rightarrow> rat \<Rightarrow> bool" where
  "fgt x c = (case x of None \<Rightarrow> False | Some v \<Rightarrow> c < v)"

definition flt :: "pyfloat \<Rightarrow> rat \<Rightarrow> bool" where
  "flt x c = (case x of None \<Rightarrow> False | Some v \<Rightarrow> v < c)"

text \<open>Python 3 \<open>round(x)\<close>: to the nearest integer, a tie to the even neighbour.\<close>

definition round_half_even :: "rat \<Rightarrow> int" where
  "round_half_even x =
     (let f = \<lfloor>x\<rfloor>; d = x - of_int f
      in if d < 1 / 2 then f
         else if 1 / 2 < d then f + 1
         else if even f then f else f + 1)"

definition py_round :: "pyfloat \<Rightarrow> error + int" where
  "py_round x = (case x of None \<Rightarrow> Inl ValueError | Some v \<Rightarrow> Inr (round_half_even v))"

text \<open>Python \<open>a / b\<close> on two \<open>int\<close>s (here: two lengths).\<close>

definition truediv :: "nat \<Rightarrow> nat \<Rightarrow> error + rat" where
  "truediv a b = (if b = 0 then Inl ZeroDivisionError else Inr (of_nat a / of_nat b))"

text \<open>\<open>Series.mean()\<close> of a boolean series, and of a float series (NaN entries skipped).\<close>

definition mean_bool :: "bool list \<Rightarrow> pyfloat" where
  "mean_bool bs =
     (if bs = [] then None
      else Some (of_nat (length (filter (\<lambda>b. b) bs)) / of_nat (length bs)))"

definition mean_float :: "pyfloat list \<Rightarrow> pyfloat" where
  "mean_float xs =
     (let vs = List.map_filter (\<lambda>x. x) xs
      in if vs = [] then None else Some (sum_list vs / of_nat (length vs)))"

subsection \<open>Strings\<close>

definition is_digit :: "char \<Rightarrow> bool" where
  "is_digit c = (c \<in> set ''0123456789'')"

definition is_upper_chr :: "char \<Rightarrow> bool" where
  "is_upper_chr c =
     (let n = (of_char c :: nat)
      in (65 \<le> n \<and> n \<le> 90) \<or> (192 \<le> n \<and> n \<le> 222 \<and> n \<noteq> 215))"

definition is_lower_chr :: "char \<Rightarrow> bool" where
  "is_lower_chr c =
     (let n = (of_char c :: nat)
      in (97 \<le> n \<and> n \<le> 122) \<or> n = 170 \<or> n = 181 \<or> n = 186
         \<or> (223 \<le> n \<and> n \<le> 255 \<and> n \<noteq> 247))"

definition is_space_chr :: "char \<Rightarrow> bool" where
  "is_space_chr c =
     (let n = (of_char c :: nat)
      in (9 \<le> n \<and> n \<le> 13) \<or> (28 \<le> n \<and> n \<le> 32) \<or> n = 133 \<or> n = 160)"

text \<open>\<open>str.islower()\<close>, \<open>str.isupper()\<close>: at least one cased character, none of the other case.\<close>

definition islower :: "string \<Rightarrow> bool" where
  "islower s = (list_ex is_lower_chr s \<and> \<not> list_ex is_upper_chr s)"

definition isupper :: "string \<Rightarrow> bool" where
  "isupper s = (list_ex is_upper_chr s \<and> \<not> list_ex is_lower_chr s)"

definition lower_chr :: "char \<Rightarrow> char" where
  "lower_chr c = (if is_upper_chr c then char_of ((of_char c :: nat) + 32) else c)"

definition lower :: "string \<Rightarrow> string" where
  "lower s = map lower_chr s"

definition strip :: "string \<Rightarrow> string" where
  "strip s = rev (dropWhile is_space_chr (rev (dropWhile is_space_chr s)))"

text \<open>Python \<open>k in s\<close> on strings: \<open>k\<close> occurs in \<open>s\<close> as a contiguous piece.\<close>

fun str_in :: "string \<Rightarrow> string \<Rightarrow> bool" where
  "str_in k [] = (k = [])"
| "str_in k (c # cs) = (take (length k) (c # cs) = k \<or> str_in k cs)"

text \<open>\<open>', '.join(xs)\<close>.\<close>

fun join :: "string \<Rightarrow> string list \<Rightarrow> string" where
  "join sep [] = []"
| "join sep [x] = x"
| "join sep (x # y # ys) = x @ sep @ join sep (y # ys)"

text \<open>\<open>str(n)\<close> of a Python \<open>int\<close> and of a \<open>bool\<close>.\<close>

fun str_nat :: "nat \<Rightarrow> string" where
  "str_nat n =
     (if n < 10 then [char_of (48 + n)]
      else str_nat (n div 10) @ [char_of (48 + n mod 10)])"

definition str_int :: "int \<Rightarrow> string" where
  "str_int i = (if i < 0 then CHR ''-'' # str_nat (nat (- i)) else str_nat (nat i))"

definition str_bool :: "bool \<Rightarrow> string" where
  "str_bool b = (if b then ''True'' else ''False'')"

subsection \<open>Regular expressions\<close>

text \<open>
  The two patterns of the source are written as regular expressions and matched with
  derivatives. Both patterns are anchored as \<open>^...$\<close>; Python's \<open>$\<close> matches at the end
  of the string and also just before a newline that ends the string.
\<close>

datatype rx = Nul | Eps | Cls "char list" | Seq rx rx | Alt rx rx | Star rx

fun nullable :: "rx \<Rightarrow> bool" where
  "nullable Nul = False"
| "nullable Eps = True"
| "nullable (Cls cs) = False"
| "nullable (Seq r s) = (nullable r \<and> nullable s)"
| "nullable (Alt r s) = (nullable r \<or> nullable s)"
| "nullable (Star r) = True"

fun deriv :: "char \<Rightarrow> rx \<Rightarrow> rx" where
  "deriv c Nul = Nul"
| "deriv c Eps = Nul"
| "deriv c (Cls cs) = (if c \<in> set cs then Eps else Nul)"
| "deriv c (Seq r s) =
     (if nullable r then Alt (Seq (deriv c r) s) (deriv c s) else Seq (deriv c r) s)"
| "deriv c (Alt r s) = Alt (deriv c r) (deriv c s)"
| "deriv c (Star r) = Seq (deriv c r) (Star r)"

text \<open>The words a regular expression denotes; the matcher is proved against them below.\<close>

inductive in_lang :: "rx \<Rightarrow> string \<Rightarrow> bool" where
  in_Eps: "in_lang Eps []"
| in_Cls: "c \<in> set cs \<Longrightarrow> in_lang (Cls cs) [c]"
| in_Seq: "in_lang r u \<Longrightarrow> in_lang s v \<Longrightarrow> in_lang (Seq r s) (u @ v)"
| in_AltL: "in_lang r u \<Longrightarrow> in_lang (Alt r s) u"
| in_AltR: "in_lang s u \<Longrightarrow> in_lang (Alt r s) u"
| in_StarNil: "in_lang (Star r) []"
| in_StarStep: "in_lang r u \<Longrightarrow> in_lang (Star r) v \<Longrightarrow> in_lang (Star r) (u @ v)"

inductive_cases in_NulE: "in_lang Nul w"
inductive_cases in_EpsE: "in_lang Eps w"
inductive_cases in_ClsE: "in_lang (Cls cs) w"
inductive_cases in_SeqE: "in_lang (Seq r s) w"
inductive_cases in_AltE: "in_lang (Alt r s) w"

definition fullmatch :: "rx \<Rightarrow> string \<Rightarrow> bool" where
  "fullmatch r s = nullable (fold deriv s r)"

definition re_anchored :: "rx \<Rightarrow> string \<Rightarrow> bool" where
  "re_anchored r s =
     (fullmatch r s \<or> (s \<noteq> [] \<and> last s = CHR 0x0A \<and> fullmatch r (butlast s)))"

definition rx_d :: rx where
  "rx_d = Cls ''0123456789''"

definition rx_opt :: "rx \<Rightarrow> rx" where
  "rx_opt r = Alt Eps r"

definition rx_plus :: "rx \<Rightarrow> rx" where
  "rx_plus r = Seq r (Star r)"

text \<open>\<^verbatim>\<open>^-?\d+([.,]\d+)?$\<close>\<close>

definition rx_numero :: rx where
  "rx_numero =
     Seq (rx_opt (Cls ''-'')) (Seq (rx_plus rx_d) (rx_opt (Seq (Cls ''.,'') (rx_plus rx_d))))"

text \<open>\<^verbatim>\<open>^\d{2}[/-]\d{2}[/-]\d{4}$|^\d{4}[/-]\d{2}[/-]\d{2}$\<close>\<close>

definition rx_d2 :: rx where
  "rx_d2 = Seq rx_d rx_d"

definition rx_d4 :: rx where
  "rx_d4 = Seq rx_d2 rx_d2"

definition rx_sep :: rx where
  "rx_sep = Cls ''/-''"

definition date_pattern :: rx where
  "date_pattern =
     Alt (Seq rx_d2 (Seq rx_sep (Seq rx_d2 (Seq rx_sep rx_d4))))
         (Seq rx_d4 (Seq rx_sep (Seq rx_d2 (Seq rx_sep rx_d2))))"

definition match_numero :: "string \<Rightarrow> bool" where
  "match_numero s = re_anchored rx_numero s"

definition match_data :: "string \<Rightarrow> bool" where
  "match_data s = re_anchored date_pattern s"

section \<open>Data frames\<close>

text \<open>
  A data frame is an ordered sequence of named columns (spec, section 3); the row count is
  the common length of the columns, so a frame without columns has no rows. A column's
  dtype fixes what its cells hold: \<open>int64\<close> cells are never null, \<open>float64\<close> cells are
  finite numbers or NaN, \<open>bool\<close> cells are never null, \<open>object\<close> cells hold the \<open>str()\<close> of
  their value or a null, \<open>datetime64\<close> cells hold a time stamp (nanoseconds) or NaT.
  These are the dtypes of the specification's data model; infinite floats and the other
  pandas dtypes (category, timedelta, complex) are outside the embedding.
\<close>

datatype series =
    IntS "int list"
  | FloatS "rat option list"
  | BoolS "bool list"
  | ObjectS "string option list"
  | DatetimeS "int option list"

record column =
  col_name :: string
  col_data :: series

type_synonym dataframe = "column list"

datatype cell =
    IntC int | FloatC "rat option" | BoolC bool | StrC "string option" | TimeC "int option"

fun cells :: "series \<Rightarrow> cell list" where
  "cells (IntS xs) = map IntC xs"
| "cells (FloatS xs) = map FloatC xs"
| "cells (BoolS xs) = map BoolC xs"
| "cells (ObjectS xs) = map StrC xs"
| "cells (DatetimeS xs) = map TimeC xs"

fun isnull :: "series \<Rightarrow> bool list" where
  "isnull (IntS xs) = map (\<lambda>_. False) xs"
| "isnull (FloatS xs) = map (\<lambda>x. x = None) xs"
| "isnull (BoolS xs) = map (\<lambda>_. False) xs"
| "isnull (ObjectS xs) = map (\<lambda>x. x = None) xs"
| "isnull (DatetimeS xs) = map (\<lambda>x. x = None) xs"

definition nrows :: "dataframe \<Rightarrow> nat" where
  "nrows df = (case df of [] \<Rightarrow> 0 | c # _ \<Rightarrow> length (cells (col_data c)))"

definition wf_df :: "dataframe \<Rightarrow> bool" where
  "wf_df df =
     (distinct (map col_name df) \<and> list_all (\<lambda>c. length (cells (col_data c)) = nrows df) df)"

text \<open>\<open>pd.api.types.is_numeric_dtype\<close> (true of \<open>bool\<close> too), \<open>is_object_dtype\<close>,
  \<open>is_datetime64_any_dtype\<close>, and the dtypes \<open>select_dtypes(include=np.number)\<close> keeps.\<close>

fun is_numeric_dtype :: "series \<Rightarrow> bool" where
  "is_numeric_dtype (IntS _) = True"
| "is_numeric_dtype (FloatS _) = True"
| "is_numeric_dtype (BoolS _) = True"
| "is_numeric_dtype _ = False"

fun is_object_dtype :: "series \<Rightarrow> bool" where
  "is_object_dtype (ObjectS _) = True"
| "is_object_dtype _ = False"

fun is_datetime64_any_dtype :: "series \<Rightarrow> bool" where
  "is_datetime64_any_dtype (DatetimeS _) = True"
| "is_datetime64_any_dtype _ = False"

fun is_np_number :: "series \<Rightarrow> bool" where
  "is_np_number (IntS _) = True"
| "is_np_number (FloatS _) = True"
| "is_np_number _ = False"

text \<open>
  Library behaviour that the embedding takes as given: how a finite float and a time stamp
  print under \<open>astype(str)\<close> (a time stamp's format depends on the whole column), and the
  permutation of \<open>0..n-1\<close> that a generator in a given state draws.
\<close>

record lib =
  repr_float :: "rat \<Rightarrow> string"
  format_datetime :: "int list \<Rightarrow> int \<Rightarrow> string"
  permutation :: "nat \<Rightarrow> nat \<Rightarrow> nat list"

definition notnull :: "'a option list \<Rightarrow> 'a list" where
  "notnull xs = List.map_filter (\<lambda>x. x) xs"

text \<open>\<open>serie.dropna().astype(str)\<close>\<close>

fun dropna_astype_str :: "lib \<Rightarrow> series \<Rightarrow> string list" where
  "dropna_astype_str L (IntS xs) = map str_int xs"
| "dropna_astype_str L (FloatS xs) = map (repr_float L) (notnull xs)"
| "dropna_astype_str L (BoolS xs) = map str_bool xs"
| "dropna_astype_str L (ObjectS xs) = notnull xs"
| "dropna_astype_str L (DatetimeS xs) = map (format_datetime L (notnull xs)) (notnull xs)"

section \<open>1. Completude\<close>

text \<open>
  \<^verbatim>\<open>
  null_pct = df.isnull().mean()
  col_completude_ruim = null_pct[null_pct > 0.3].index.tolist()
  completude_score = (1 - null_pct.mean()) * 100
  scores["Completude"] = max(1, round(completude_score / 20))
  \<close>
\<close>

definition null_pct :: "dataframe \<Rightarrow> (string \<times> pyfloat) list" where
  "null_pct df = map (\<lambda>c. (col_name c, mean_bool (isnull (col_data c)))) df"

definition completude :: "dataframe \<Rightarrow> error + (int \<times> string list)" where
  "completude df =
     (let col_completude_ruim = map fst (filter (\<lambda>(n, p). fgt p (3 / 10)) (null_pct df));
          completude_score = fmul (fsub 1 (mean_float (map snd (null_pct df)))) 100
      in case py_round (fdiv completude_score 20) of
           Inl e \<Rightarrow> Inl e
         | Inr r \<Rightarrow> Inr (max 1 r, col_completude_ruim))"

section \<open>2. Unicidade\<close>

text \<open>
  \<open>df.duplicated()\<close> marks every row that equals an earlier row on all columns (nulls
  compare equal); on a frame without columns or rows it is empty.
  \<^verbatim>\<open>
  if df.duplicated().mean() > 0.2:
      diagnostico_colunas["Unicidade"] = ["... Muitos registros duplicados"]
  unicidade_score = (1 - df.duplicated().mean()) * 100
  scores["Unicidade"] = max(1, round(unicidade_score / 20))
  \<close>
  The message starts with a warning-sign emoji in the source; it is outside Latin-1 and is
  left out of the constant below.
\<close>

definition rows :: "dataframe \<Rightarrow> cell list list" where
  "rows df = map (\<lambda>i. map (\<lambda>c. cells (col_data c) ! i) df) [0..<nrows df]"

fun duplicated_from :: "cell list list \<Rightarrow> cell list list \<Rightarrow> bool list" where
  "duplicated_from seen [] = []"
| "duplicated_from seen (r # rs) = (r \<in> set seen) # duplicated_from (r # seen) rs"

definition duplicated :: "dataframe \<Rightarrow> bool list" where
  "duplicated df = duplicated_from [] (rows df)"

definition muitos_duplicados :: string where
  "muitos_duplicados = '' Muitos registros duplicados''"

definition unicidade :: "dataframe \<Rightarrow> error + (int \<times> string list)" where
  "unicidade df =
     (let diag = (if fgt (mean_bool (duplicated df)) (2 / 10) then [muitos_duplicados] else []);
          unicidade_score = fmul (fsub 1 (mean_bool (duplicated df))) 100
      in case py_round (fdiv unicidade_score 20) of
           Inl e \<Rightarrow> Inl e
         | Inr r \<Rightarrow> Inr (max 1 r, diag))"

section \<open>3. Consistencia\<close>

text \<open>
  The body of the loop over \<open>df.columns\<close> (lines 186-213) decides for one column whether it
  is appended to \<open>colunas_inconsistentes\<close>. The division by \<open>len(valores)\<close> is reached only
  when \<open>serie\<close> is not empty.
\<close>

definition count_notnull :: "series \<Rightarrow> nat" where
  "count_notnull s = length (filter (\<lambda>b. \<not> b) (isnull s))"

definition coluna_inconsistente :: "lib \<Rightarrow> column \<Rightarrow> bool" where
  "coluna_inconsistente L c =
     (let serie = col_data c
      in if count_notnull serie = 0 then False
         else
           let valores = map strip (dropna_astype_str L serie)
           in if is_numeric_dtype serie then
                (let valores_invalidos = filter (\<lambda>v. \<not> match_numero v) valores
                 in 1 / 10 < (of_nat (length valores_invalidos) :: rat) / of_nat (length valores))
              else if is_datetime64_any_dtype serie then
                (let valores_invalidos = filter (\<lambda>v. \<not> match_data v) valores
                 in 1 / 10 < (of_nat (length valores_invalidos) :: rat) / of_nat (length valores))
              else if is_object_dtype serie then
                (fgt (mean_bool (map match_numero valores)) (1 / 2)
                 \<or> fgt (mean_bool (map match_data valores)) (1 / 2))
              else False)"

text \<open>
  \<^verbatim>\<open>
  tipo_correto_pct = 1 - (len(colunas_inconsistentes) / len(df.columns))
  scores["Consistencia"] = max(1, round(tipo_correto_pct * 5))
  \<close>
\<close>

definition consistencia :: "lib \<Rightarrow> dataframe \<Rightarrow> error + (int \<times> string list)" where
  "consistencia L df =
     (let colunas_inconsistentes = map col_name (filter (coluna_inconsistente L) df)
      in case truediv (length colunas_inconsistentes) (length df) of
           Inl e \<Rightarrow> Inl e
         | Inr q \<Rightarrow> Inr (max 1 (round_half_even ((1 - q) * 5)), colunas_inconsistentes))"

section \<open>4. Precisao\<close>

text \<open>
  \<open>Series.quantile(q)\<close>: linear interpolation between the order statistics of the
  non-null values, NaN when there is none.
\<close>

fun numeric_values :: "series \<Rightarrow> rat option list" where
  "numeric_values (IntS xs) = map (\<lambda>i. Some (of_int i)) xs"
| "numeric_values (FloatS xs) = xs"
| "numeric_values (BoolS xs) = map (\<lambda>b. Some (if b then 1 else 0)) xs"
| "numeric_values _ = []"

definition quantile :: "rat option list \<Rightarrow> rat \<Rightarrow> pyfloat" where
  "quantile xs q =
     (let vs = sort (notnull xs)
      in if vs = [] then None
         else
           let h = of_nat (length vs - 1) * q;
               lo = nat \<lfloor>h\<rfloor>;
               hi = min (lo + 1) (length vs - 1)
           in Some (vs ! lo + (h - of_nat lo) * (vs ! hi - vs ! lo)))"

text \<open>
  \<^verbatim>\<open>
  Q1 = df[col].quantile(0.25)
  Q3 = df[col].quantile(0.75)
  IQR = Q3 - Q1
  outliers = ((df[col] < Q1 - 1.5 * IQR) | (df[col] > Q3 + 1.5 * IQR))
  \<close>
\<close>

definition outliers :: "series \<Rightarrow> bool list" where
  "outliers serie =
     (let xs = numeric_values serie;
          Q1 = quantile xs (1 / 4);
          Q3 = quantile xs (3 / 4);
          IQR = fminus Q3 Q1;
          lo = fminus Q1 (fmul IQR (3 / 2));
          hi = fadd Q3 (fmul IQR (3 / 2))
      in map (\<lambda>x. fless x lo \<or> fless hi x) xs)"

text \<open>
  \<^verbatim>\<open>
  if not numeric_cols.empty:
      outlier_score = 0
      for col in numeric_cols:
          ...
          if outliers.mean() > 0.3:
              outlier_cols.append(col)
          outlier_score += (1 - outliers.mean())
      scores["Precisao"] = max(1, round((outlier_score / len(numeric_cols)) * 5))
      diagnostico_colunas["Precisao"] = outlier_cols
  else:
      scores["Precisao"] = 5
  \<close>
\<close>

fun precisao_loop :: "column list \<Rightarrow> string list \<times> pyfloat \<Rightarrow> string list \<times> pyfloat" where
  "precisao_loop [] acc = acc"
| "precisao_loop (c # cs) (outlier_cols, outlier_score) =
     (let m = mean_bool (outliers (col_data c))
      in precisao_loop cs
           (if fgt m (3 / 10) then outlier_cols @ [col_name c] else outlier_cols,
            fadd outlier_score (fsub 1 m)))"

definition precisao :: "dataframe \<Rightarrow> error + (int \<times> string list)" where
  "precisao df =
     (let numeric_cols = filter (\<lambda>c. is_np_number (col_data c)) df
      in if numeric_cols \<noteq> [] then
           (let (outlier_cols, outlier_score) = precisao_loop numeric_cols ([], Some 0)
            in case py_round (fmul (fdiv outlier_score (of_nat (length numeric_cols))) 5) of
                 Inl e \<Rightarrow> Inl e
               | Inr r \<Rightarrow> Inr (max 1 r, outlier_cols))
         else Inr (5, []))"

section \<open>5. Integridade\<close>

text \<open>
  The counters \<open>col_checks\<close>, \<open>col_passes\<close> and the list \<open>col_problemas\<close> of one column
  are a record that each check updates, in the order of the source (lines 243-317).
\<close>

record col_state =
  col_checks :: nat
  col_passes :: nat
  col_problemas :: "string list"

definition any_in :: "string list \<Rightarrow> string \<Rightarrow> bool" where
  "any_in ks s = list_ex (\<lambda>k. str_in k s) ks"

definition add_problema :: "string \<Rightarrow> col_state \<Rightarrow> col_state" where
  "add_problema m st = st\<lparr>col_problemas := col_problemas st @ [m]\<rparr>"

definition add_pass :: "col_state \<Rightarrow> col_state" where
  "add_pass st = st\<lparr>col_passes := col_passes st + 1\<rparr>"

definition add_check :: "col_state \<Rightarrow> col_state" where
  "add_check st = st\<lparr>col_checks := col_checks st + 1\<rparr>"

text \<open>\<open>serie.min()\<close>: the least non-null value, NaN when there is none.\<close>

definition series_min :: "series \<Rightarrow> pyfloat" where
  "series_min serie =
     (case notnull (numeric_values serie) of [] \<Rightarrow> None | v # vs \<Rightarrow> Some (fold min vs v))"

text \<open>
  \<^verbatim>\<open>
  if any(k in col_lower for k in ['valor', 'preco', 'quantidade', 'saldo']):
      if serie.min() < 0:
          col_problemas.append("valores negativos indevidos")
      else:
          col_passes += 1
      col_checks += 1
  \<close>
  (\<open>preco\<close> is written with a c-cedilla in the source, code point 231.)
\<close>

definition check_negativos :: "string \<Rightarrow> series \<Rightarrow> col_state \<Rightarrow> col_state" where
  "check_negativos col_lower serie st =
     (if any_in [''valor'', ''pre'' @ [CHR 0xE7] @ ''o'', ''quantidade'', ''saldo''] col_lower
      then add_check
             (if flt (series_min serie) 0 then add_problema ''valores negativos indevidos'' st
              else add_pass st)
      else st)"

text \<open>
  \<^verbatim>\<open>
  if 'binario' in col_lower or 'flag' in col_lower:
      valores = set(serie.dropna().unique())
      if not valores.issubset({0, 1}):
          col_problemas.append("valores fora de 0/1 em campo binario")
      else:
          col_passes += 1
      col_checks += 1
  \<close>
  (\<open>binario\<close> is written with an a-acute in the source, code point 225.)
\<close>

definition check_binario :: "string \<Rightarrow> series \<Rightarrow> col_state \<Rightarrow> col_state" where
  "check_binario col_lower serie st =
     (if str_in (''bin'' @ [CHR 0xE1] @ ''rio'') col_lower \<or> str_in ''flag'' col_lower
      then add_check
             (if \<not> list_all (\<lambda>v. v = 0 \<or> v = 1) (notnull (numeric_values serie))
              then add_problema (''valores fora de 0/1 em campo bin'' @ [CHR 0xE1] @ ''rio'') st
              else add_pass st)
      else st)"

text \<open>
  \<open>Series.sample(n, random_state)\<close> takes the first \<open>n\<close> positions of a permutation of
  the index. With \<open>random_state\<close> given, the permutation comes from a fresh generator
  seeded with it; without, from the ambient generator, whose state is \<open>g\<close>.
  \<^verbatim>\<open>
  sample = serie.dropna().astype(str).sample(min(100, len(serie.dropna())), random_state=42)
  \<close>
\<close>

definition sample_pd :: "lib \<Rightarrow> nat \<Rightarrow> 'a list \<Rightarrow> nat \<Rightarrow> nat option \<Rightarrow> 'a list" where
  "sample_pd L g xs n random_state =
     (let seed = (case random_state of Some s \<Rightarrow> s | None \<Rightarrow> g)
      in map (\<lambda>i. xs ! i) (take n (permutation L seed (length xs))))"

definition amostra :: "lib \<Rightarrow> nat \<Rightarrow> series \<Rightarrow> string list" where
  "amostra L g serie =
     (let vals = dropna_astype_str L serie
      in sample_pd L g vals (min 100 (length vals)) (Some 42))"

text \<open>
  \<^verbatim>\<open>
  if sample.str.islower().any() or sample.str.isupper().any():
      col_problemas.append("capitalizacao inconsistente")
  else:
      col_passes += 1
  col_checks += 1
  \<close>
\<close>

definition capitalizacao_inconsistente :: string where
  "capitalizacao_inconsistente =
     ''capitaliza'' @ [CHR 0xE7, CHR 0xE3] @ ''o inconsistente''"

definition check_capitalizacao :: "string list \<Rightarrow> col_state \<Rightarrow> col_state" where
  "check_capitalizacao sample st =
     add_check
       (if list_ex islower sample \<or> list_ex isupper sample
        then add_problema capitalizacao_inconsistente st
        else add_pass st)"

text \<open>
  \<^verbatim>\<open>
  if any(k in col_lower for k in ['cpf', 'cnpj', 'telefone', 'cep', 'id', 'cod', 'cd']):
      cleaned = sample.str.replace(r'\D', '', regex=True)
      expected_length = (11 if 'cpf' in col_lower else 14 if 'cnpj' in col_lower else
                         8 if 'cep' in col_lower else 10 if 'telefone' in col_lower else None)
      if any(k in col_lower for k in ['id', 'cod', 'cd']):
          if cleaned.str.len().nunique() > 1:
              col_problemas.append("tamanhos inconsistentes em codigos/IDs")
          else:
              col_passes += 1
      elif expected_length:
          if not cleaned.str.len().eq(expected_length).all():
              col_problemas.append(f"tamanho incorreto para {col}")
          else:
              col_passes += 1
      col_checks += 1
  \<close>
\<close>

definition expected_length :: "string \<Rightarrow> nat option" where
  "expected_length col_lower =
     (if str_in ''cpf'' col_lower then Some 11
      else if str_in ''cnpj'' col_lower then Some 14
      else if str_in ''cep'' col_lower then Some 8
      else if str_in ''telefone'' col_lower then Some 10
      else None)"

definition nunique :: "'a list \<Rightarrow> nat" where
  "nunique xs = length (remdups xs)"

definition tamanhos_inconsistentes :: string where
  "tamanhos_inconsistentes = ''tamanhos inconsistentes em c'' @ [CHR 0xF3] @ ''digos/IDs''"

definition tamanho_incorreto :: "string \<Rightarrow> string" where
  "tamanho_incorreto col = ''tamanho incorreto para '' @ col"

definition check_codigos :: "string \<Rightarrow> string \<Rightarrow> string list \<Rightarrow> col_state \<Rightarrow> col_state" where
  "check_codigos col col_lower sample st =
     (if any_in [''cpf'', ''cnpj'', ''telefone'', ''cep'', ''id'', ''cod'', ''cd''] col_lower
      then
        (let cleaned = map (filter is_digit) sample
         in add_check
              (if any_in [''id'', ''cod'', ''cd''] col_lower then
                 (if 1 < nunique (map length cleaned) then add_problema tamanhos_inconsistentes st
                  else add_pass st)
               else
                 (case expected_length col_lower of
                    Some n \<Rightarrow>
                      (if n \<noteq> 0 then
                         (if \<not> list_all (\<lambda>s. length s = n) cleaned
                          then add_problema (tamanho_incorreto col) st
                          else add_pass st)
                       else st)
                  | None \<Rightarrow> st)))
      else st)"

text \<open>
  \<^verbatim>\<open>
  if any(k in col_lower for k in ['data', 'dt', 'date', 'nascimento', 'inicio', 'fim']):
      valid_dates = sample.str.contains(date_pattern, na=False)
      if valid_dates.mean() < 0.9:
          col_problemas.append("datas fora do padrao")
      else:
          col_passes += 1
      col_checks += 1
  \<close>
\<close>

definition datas_fora_do_padrao :: string where
  "datas_fora_do_padrao = ''datas fora do padr'' @ [CHR 0xE3] @ ''o''"

definition check_datas :: "string \<Rightarrow> string list \<Rightarrow> col_state \<Rightarrow> col_state" where
  "check_datas col_lower sample st =
     (if any_in [''data'', ''dt'', ''date'', ''nascimento'', ''inicio'', ''fim''] col_lower
      then add_check
             (if flt (mean_bool (map match_data sample)) (9 / 10)
              then add_problema datas_fora_do_padrao st
              else add_pass st)
      else st)"

text \<open>The checks of one column, by dtype (numeric, else object, else datetime).\<close>

definition avaliar_coluna :: "lib \<Rightarrow> nat \<Rightarrow> column \<Rightarrow> col_state" where
  "avaliar_coluna L g c =
     (let serie = col_data c;
          col_lower = lower (col_name c);
          st0 = \<lparr>col_checks = 0, col_passes = 0, col_problemas = []\<rparr>
      in if is_numeric_dtype serie then
           check_binario col_lower serie (check_negativos col_lower serie st0)
         else if is_object_dtype serie then
           (let sample = amostra L g serie
            in check_datas col_lower sample
                 (check_codigos (col_name c) col_lower sample (check_capitalizacao sample st0)))
         else if is_datetime64_any_dtype serie then add_check (add_pass st0)
         else st0)"

text \<open>
  \<^verbatim>\<open>
  if col_checks > 0:
      integridade_score += (col_passes / col_checks)
      total_checks += 1
      if col_problemas:
          integridade_detalhes.append(f"{col}: {', '.join(col_problemas)}")
  \<close>
\<close>

definition detalhe :: "string \<Rightarrow> string list \<Rightarrow> string" where
  "detalhe col problemas = col @ '': '' @ join '', '' problemas"

fun integridade_loop ::
  "lib \<Rightarrow> nat \<Rightarrow> column list \<Rightarrow> rat \<times> nat \<times> string list \<Rightarrow> rat \<times> nat \<times> string list" where
  "integridade_loop L g [] acc = acc"
| "integridade_loop L g (c # cs) (integridade_score, total_checks, integridade_detalhes) =
     (let st = avaliar_coluna L g c
      in if 0 < col_checks st then
           integridade_loop L g cs
             (integridade_score + of_nat (col_passes st) / of_nat (col_checks st),
              total_checks + 1,
              if col_problemas st \<noteq> []
              then integridade_detalhes @ [detalhe (col_name c) (col_problemas st)]
              else integridade_detalhes)
         else integridade_loop L g cs (integridade_score, total_checks, integridade_detalhes))"

text \<open>
  \<^verbatim>\<open>
  scores["Integridade"] = max(1, round((integridade_score / total_checks) * 5)) if total_checks else 5
  \<close>
\<close>

definition integridade :: "lib \<Rightarrow> nat \<Rightarrow> dataframe \<Rightarrow> int \<times> string list" where
  "integridade L g df =
     (let (integridade_score, total_checks, integridade_detalhes) =
            integridade_loop L g df (0, 0, [])
      in (if total_checks \<noteq> 0
          then max 1 (round_half_even (integridade_score / of_nat total_checks * 5))
          else 5,
          integridade_detalhes))"

section \<open>The whole evaluation\<close>

text \<open>
  \<open>calcular_scores\<close> runs the five blocks in order; an exception in one block ends the call.
  The two dictionaries it returns have the five criteria as keys, in this order.
\<close>

record scores =
  Completude :: int
  Unicidade :: int
  Consistencia :: int
  Precisao :: int
  Integridade :: int

record diagnostico =
  diag_Completude :: "string list"
  diag_Unicidade :: "string list"
  diag_Consistencia :: "string list"
  diag_Precisao :: "string list"
  diag_Integridade :: "string list"

definition calcular_scores :: "lib \<Rightarrow> nat \<Rightarrow> dataframe \<Rightarrow> error + (scores \<times> diagnostico)" where
  "calcular_scores L g df =
     (case completude df of Inl e \<Rightarrow> Inl e | Inr (s1, d1) \<Rightarrow>
      case unicidade df of Inl e \<Rightarrow> Inl e | Inr (s2, d2) \<Rightarrow>
      case consistencia L df of Inl e \<Rightarrow> Inl e | Inr (s3, d3) \<Rightarrow>
      case precisao df of Inl e \<Rightarrow> Inl e | Inr (s4, d4) \<Rightarrow>
      (let (s5, d5) = integridade L g df
       in Inr (\<lparr>Completude = s1, Unicidade = s2, Consistencia = s3, Precisao = s4,
                 Integridade = s5\<rparr>,
               \<lparr>diag_Completude = d1, diag_Unicidade = d2, diag_Consistencia = d3,
                 diag_Precisao = d4, diag_Integridade = d5\<rparr>)))"

text \<open>
  \<^verbatim>\<open>
  score_final = round(np.mean(list(scores.values())), 1)
  \<close>
\<close>

definition score_values :: "scores \<Rightarrow> int list" where
  "score_values sc = [Completude sc, Unicidade sc, Consistencia sc, Precisao sc, Integridade sc]"

definition round1 :: "rat \<Rightarrow> rat" where
  "round1 x = of_int (round_half_even (x * 10)) / 10"

definition score_final :: "scores \<Rightarrow> rat" where
  "score_final sc =
     round1 (of_int (sum_list (score_values sc)) / of_nat (length (score_values sc)))"

section \<open>The criteria as the specification words them\<close>

text \<open>
  For each criterion whose formula the specification states, a second definition follows
  the words of the specification; the properties below compare it with the block of the
  source.
\<close>



text \<open>
  The fraction of duplicated rows: the rows that equal an earlier row on all columns, over
  the row count.
\<close>

definition duplicate_fraction :: "dataframe \<Rightarrow> rat" where
  "duplicate_fraction df =
     of_nat (length (filter (\<lambda>i. \<exists>j \<in> {0..<i}. rows df ! j = rows df ! i) [0..<nrows df]))
       / of_nat (nrows df)"

text \<open>
  The declared type of a column (spec, section 3) and the columns the Consistencia
  criterion flags: among the stringified, trimmed non-null values, more than 10% fail the
  pattern of the declared type, or, for a textual column, more than 50% look numeric or
  more than 50% look like dates.
\<close>

datatype declared = Numeric | Textual | Temporal

fun declared_type :: "series \<Rightarrow> declared" where
  "declared_type (IntS _) = Numeric"
| "declared_type (FloatS _) = Numeric"
| "declared_type (BoolS _) = Numeric"
| "declared_type (ObjectS _) = Textual"
| "declared_type (DatetimeS _) = Temporal"

definition flagged :: "lib \<Rightarrow> column \<Rightarrow> bool" where
  "flagged L c =
     (let vs = map strip (dropna_astype_str L (col_data c));
          n = length vs;
          fail_numeric = length (filter (\<lambda>v. \<not> match_numero v) vs);
          fail_date = length (filter (\<lambda>v. \<not> match_data v) vs);
          look_numeric = length (filter match_numero vs);
          look_date = length (filter match_data vs)
      in 0 < n \<and>
         (case declared_type (col_data c) of
            Numeric \<Rightarrow> n < 10 * fail_numeric
          | Temporal \<Rightarrow> n < 10 * fail_date
          | Textual \<Rightarrow> n < 2 * look_numeric \<or> n < 2 * look_date))"




text \<open>
  Integridade as the specification words it: the sub-score of a column is passes over
  checks, the score averages the sub-scores of the columns with at least one check (5 when
  there is none), and the diagnostic has one entry, the column name, a colon and the
  comma-joined problem strings, for each column with at least one failed check.
\<close>

definition sub_score :: "lib \<Rightarrow> nat \<Rightarrow> column \<Rightarrow> rat" where
  "sub_score L g c =
     of_nat (col_passes (avaliar_coluna L g c)) / of_nat (col_checks (avaliar_coluna L g c))"

definition checked_columns :: "lib \<Rightarrow> nat \<Rightarrow> dataframe \<Rightarrow> dataframe" where
  "checked_columns L g df = filter (\<lambda>c. 1 \<le> col_checks (avaliar_coluna L g c)) df"

definition failed_checks :: "lib \<Rightarrow> nat \<Rightarrow> column \<Rightarrow> nat" where
  "failed_checks L g c = col_checks (avaliar_coluna L g c) - col_passes (avaliar_coluna L g c)"

definition integridade_spec :: "lib \<Rightarrow> nat \<Rightarrow> dataframe \<Rightarrow> int \<times> string list" where
  "integridade_spec L g df =
     (if checked_columns L g df = [] then 5
      else max 1 (round_half_even
                    (sum_list (map (sub_score L g) (checked_columns L g df))
                       / of_nat (length (checked_columns L g df)) * 5)),
      map (\<lambda>c. col_name c @ '': '' @ join '', '' (col_problemas (avaliar_coluna L g c)))
          (filter (\<lambda>c. 1 \<le> failed_checks L g c) df))"

section \<open>An invariant of the counters of a column\<close>

text \<open>
  Every check of a column either passes or leaves one problem string, so the checks of a
  column are its passes plus its problem strings.
\<close>

definition balanced :: "col_state \<Rightarrow> bool" where
  "balanced st \<longleftrightarrow> col_checks st = col_passes st + length (col_problemas st)"

section \<open>Example inputs\<close>

text \<open>
  A library instance for evaluating examples. Its floats print with one decimal digit, as
  Python prints the floats of the examples; the only time stamp of the examples is 0,
  midnight of 1970-01-01, which pandas prints as a date; and its generator draws the
  identity permutation, so a sample keeps the order of the column.
\<close>

definition repr_float0 :: "rat \<Rightarrow> string" where
  "repr_float0 r =
     (let a = \<bar>r\<bar>
      in (if r < 0 then ''-'' else []) @ str_nat (nat \<lfloor>a\<rfloor>) @ ''.''
           @ str_nat (nat \<lfloor>(a - of_int \<lfloor>a\<rfloor>) * 10\<rfloor>))"

definition lib0 :: lib where
  "lib0 = \<lparr>repr_float = repr_float0,
            format_datetime = (\<lambda>ts t. ''1970-01-01''),
            permutation = (\<lambda>seed n. [0..<n])\<rparr>"

definition df_sem_linhas :: dataframe where
  "df_sem_linhas = [\<lparr>col_name = ''a'', col_data = ObjectS []\<rparr>]"

definition df_sem_linhas_float :: dataframe where
  "df_sem_linhas_float = [\<lparr>col_name = ''x'', col_data = FloatS []\<rparr>]"

definition df_ids :: dataframe where
  "df_ids = [\<lparr>col_name = ''a'', col_data = IntS [1, 2, 3]\<rparr>]"

definition df_unicos :: dataframe where
  "df_unicos = [\<lparr>col_name = ''a'', col_data = IntS [1, 2, 3]\<rparr>,
               \<lparr>col_name = ''b'', col_data = ObjectS [None, None, Some ''x'']\<rparr>]"

definition df_repetidos :: dataframe where
  "df_repetidos = [\<lparr>col_name = ''a'', col_data = IntS [7, 7, 7, 7]\<rparr>,
                  \<lparr>col_name = ''b'', col_data = FloatS [None, None, None, None]\<rparr>]"

definition df_nulos :: dataframe where
  "df_nulos = [\<lparr>col_name = ''b'', col_data = FloatS [None, None]\<rparr>,
              \<lparr>col_name = ''c'', col_data = ObjectS [None, None]\<rparr>]"

definition df_tipos :: dataframe where
  "df_tipos =
     [\<lparr>col_name = ''ativo'', col_data = BoolS [True, False, True]\<rparr>,
      \<lparr>col_name = ''nome'', col_data = ObjectS [Some ''Ana'', Some '' 12 '', None]\<rparr>,
      \<lparr>col_name = ''codigo'', col_data = ObjectS [Some ''7'', Some '' 12 '', Some ''x'']\<rparr>,
      \<lparr>col_name = ''dia'', col_data = DatetimeS [Some 0, None, Some 0]\<rparr>,
      \<lparr>col_name = ''vazio'', col_data = FloatS [None, None, None]\<rparr>,
      \<lparr>col_name = ''n'', col_data = IntS [-3, 40, 5]\<rparr>]"

definition df_medidas :: dataframe where
  "df_medidas =
     [\<lparr>col_name = ''x'', col_data = IntS [-9, 0, 0, 0, 9]\<rparr>,
      \<lparr>col_name = ''y'', col_data = FloatS [Some 1, None, Some 2, Some 2, None]\<rparr>,
      \<lparr>col_name = ''nome'', col_data = ObjectS [Some ''a'', None, None, None, None]\<rparr>]"


definition col_cpf_id :: column where
  "col_cpf_id = \<lparr>col_name = ''CPF_ID'', col_data = ObjectS [Some ''12-3'', Some ''4.56'']\<rparr>"

definition df_regras :: dataframe where
  "df_regras =
     [\<lparr>col_name = ''Valor'', col_data = FloatS [Some 1, Some (- 2)]\<rparr>,
      \<lparr>col_name = ''flag_ativo'', col_data = IntS [0, 1]\<rparr>,
      \<lparr>col_name = ''cpf'', col_data = ObjectS [Some ''123.456.789-01'', Some ''123'']\<rparr>,
      \<lparr>col_name = ''dt_inicio'', col_data = ObjectS [Some ''2020-01-31'', Some ''31/01/2020'']\<rparr>,
      \<lparr>col_name = ''cod_data'', col_data = ObjectS [Some ''ab'', Some ''abc1'']\<rparr>,
      \<lparr>col_name = ''n'', col_data = IntS [5, 6]\<rparr>,
      \<lparr>col_name = ''dia'', col_data = DatetimeS [Some 0, None]\<rparr>]"

definition scores_regras :: scores where
  "scores_regras =
     \<lparr>Completude = 5, Unicidade = 5, Consistencia = 4, Precisao = 5, Integridade = 3\<rparr>"

definition diag_regras :: diagnostico where
  "diag_regras =
     \<lparr>diag_Completude = [''dia''], diag_Unicidade = [], diag_Consistencia = [''dt_inicio''],
      diag_Precisao = [],
      diag_Integridade =
        [''Valor: valores negativos indevidos'',
         ''cpf: tamanho incorreto para cpf'',
         ''cod_data: '' @ capitalizacao_inconsistente @ '', '' @ tamanhos_inconsistentes
            @ '', '' @ datas_fora_do_padrao]\<rparr>"

section \<open>Properties\<close>

subsection \<open>The primitives on examples\<close>

lemma examples_well_formed:
  "wf_df df_sem_linhas \<and> wf_df df_sem_linhas_float \<and> wf_df df_ids \<and> wf_df df_unicos
   \<and> wf_df df_repetidos \<and> wf_df df_nulos \<and> wf_df df_tipos \<and> wf_df df_medidas
   \<and> wf_df df_regras"
  by code_simp

lemma round_half_even_examples:
  "round_half_even (5 / 2) = 2 \<and> round_half_even (7 / 2) = 4 \<and> round_half_even (9 / 2) = 4
   \<and> round_half_even (- (1 / 2)) = 0 \<and> round_half_even (10 / 3) = 3"
  by code_simp

lemma match_numero_examples:
  "match_numero ''-12,5'' \<and> match_numero ''007'' \<and> match_numero ''3.14''
   \<and> \<not> match_numero ''1e5'' \<and> \<not> match_numero ''12.'' \<and> \<not> match_numero ''True''
   \<and> \<not> match_numero '' 12''"
  by code_simp

lemma match_data_examples:
  "match_data ''31/01/2020'' \<and> match_data ''2020-01-31'' \<and> match_data ''31-01/2020''
   \<and> \<not> match_data ''2020-1-31'' \<and> \<not> match_data ''2020-01-31 00:00:00''
   \<and> \<not> match_data ''31/01/20''"
  by code_simp

lemma string_examples:
  "lower ''CPF_Id'' = ''cpf_id'' \<and> strip '' 12 '' = ''12''
   \<and> islower ''ab1'' \<and> \<not> islower ''Ana'' \<and> \<not> islower ''123'' \<and> isupper ''SP''
   \<and> str_in ''id'' ''cidade'' \<and> \<not> str_in ''cd'' ''codigo''
   \<and> join '', '' [''a'', ''b'', ''c''] = ''a, b, c''
   \<and> str_int (- 203) = ''-203'' \<and> repr_float0 (3 / 2) = ''1.5'' \<and> repr_float0 (- 2) = ''-2.0''"
  by code_simp

lemma quantile_examples:
  "quantile [Some 1, None, Some 2, Some 2] (1 / 4) = Some (3 / 2)
   \<and> quantile [Some 1, None, Some 2, Some 2] (3 / 4) = Some 2
   \<and> quantile [Some 4] (1 / 4) = Some 4
   \<and> quantile [None] (1 / 4) = None"
  by code_simp

subsection \<open>The matcher decides the language of a regular expression\<close>

lemma nullable_in_lang: "nullable r \<longleftrightarrow> in_lang r []"
proof (induction r)
  case (Seq r s)
  have "in_lang (Seq r s) [] \<longleftrightarrow> in_lang r [] \<and> in_lang s []"
  proof
    assume "in_lang (Seq r s) []"
    then show "in_lang r [] \<and> in_lang s []"
      by (rule in_SeqE) simp
  next
    assume "in_lang r [] \<and> in_lang s []"
    then show "in_lang (Seq r s) []"
      using in_Seq [of r "[]" s "[]"] by simp
  qed
  then show ?case using Seq by simp
qed (auto intro: in_lang.intros elim: in_NulE in_ClsE in_AltE)

lemma star_cons:
  assumes "in_lang q w" and "q = Star r" and "w = c # s"
  shows "\<exists>u v. s = u @ v \<and> in_lang r (c # u) \<and> in_lang (Star r) v"
  using assms
proof (induction q w arbitrary: s rule: in_lang.induct)
  case (in_StarStep r' u v)
  show ?case
  proof (cases u)
    case Nil
    then show ?thesis using in_StarStep by simp
  next
    case (Cons a u')
    then show ?thesis using in_StarStep.hyps in_StarStep.prems by auto
  qed
qed simp_all

lemma deriv_in_lang: "in_lang (deriv c r) s \<longleftrightarrow> in_lang r (c # s)"
proof (induction r arbitrary: s)
  case Nul
  then show ?case by (auto elim: in_NulE)
next
  case Eps
  then show ?case by (auto elim: in_NulE in_EpsE)
next
  case (Cls cs)
  then show ?case by (auto intro: in_lang.intros elim: in_NulE in_EpsE in_ClsE)
next
  case (Seq r1 r2)
  have "in_lang (Seq r1 r2) (c # s) \<longleftrightarrow>
        (\<exists>u v. s = u @ v \<and> in_lang r1 (c # u) \<and> in_lang r2 v) \<or> (in_lang r1 [] \<and> in_lang r2 (c # s))"
  proof
    assume "in_lang (Seq r1 r2) (c # s)"
    then obtain u v where uv: "c # s = u @ v" "in_lang r1 u" "in_lang r2 v"
      by (auto elim: in_SeqE)
    then show "(\<exists>u v. s = u @ v \<and> in_lang r1 (c # u) \<and> in_lang r2 v) \<or> (in_lang r1 [] \<and> in_lang r2 (c # s))"
      by (cases u) auto
  next
    assume "(\<exists>u v. s = u @ v \<and> in_lang r1 (c # u) \<and> in_lang r2 v) \<or> (in_lang r1 [] \<and> in_lang r2 (c # s))"
    then show "in_lang (Seq r1 r2) (c # s)"
    proof
      assume "\<exists>u v. s = u @ v \<and> in_lang r1 (c # u) \<and> in_lang r2 v"
      then obtain u v where "s = u @ v" "in_lang r1 (c # u)" "in_lang r2 v"
        by blast
      then show ?thesis
        using in_Seq [of r1 "c # u" r2 v] by simp
    next
      assume "in_lang r1 [] \<and> in_lang r2 (c # s)"
      then show ?thesis
        using in_Seq [of r1 "[]" r2 "c # s"] by simp
    qed
  qed
  moreover have "in_lang (Seq (deriv c r1) r2) s \<longleftrightarrow> (\<exists>u v. s = u @ v \<and> in_lang r1 (c # u) \<and> in_lang r2 v)"
    using Seq.IH(1) by (auto intro: in_lang.intros elim!: in_SeqE)
  ultimately show ?case
    using Seq.IH(2) by (auto simp: nullable_in_lang intro: in_lang.intros elim!: in_AltE)
next
  case (Alt r1 r2)
  then show ?case by (auto intro: in_lang.intros elim!: in_AltE)
next
  case (Star r)
  have "in_lang (Seq (deriv c r) (Star r)) s \<longleftrightarrow> (\<exists>u v. s = u @ v \<and> in_lang r (c # u) \<and> in_lang (Star r) v)"
    using Star.IH by (auto intro: in_lang.intros elim!: in_SeqE)
  moreover have "in_lang (Star r) (c # s) \<longleftrightarrow> (\<exists>u v. s = u @ v \<and> in_lang r (c # u) \<and> in_lang (Star r) v)"
  proof
    assume "in_lang (Star r) (c # s)"
    then show "\<exists>u v. s = u @ v \<and> in_lang r (c # u) \<and> in_lang (Star r) v"
      using star_cons by blast
  next
    assume "\<exists>u v. s = u @ v \<and> in_lang r (c # u) \<and> in_lang (Star r) v"
    then obtain u v where "s = u @ v" "in_lang r (c # u)" "in_lang (Star r) v"
      by blast
    then show "in_lang (Star r) (c # s)"
      using in_StarStep [of r "c # u" v] by simp
  qed
  ultimately show ?case by simp
qed

lemma fullmatch_in_lang: "fullmatch r s \<longleftrightarrow> in_lang r s"
  unfolding fullmatch_def
  by (induction s arbitrary: r) (simp_all add: nullable_in_lang deriv_in_lang)

subsection \<open>Lists, means and rounding\<close>

lemma length_isnull: "length (isnull s) = length (cells s)"
  by (cases s) simp_all

lemma length_rows: "length (rows df) = nrows df"
  by (simp add: rows_def)




lemma length_dropna_astype_str: "length (dropna_astype_str L s) = count_notnull s"
proof -
  have n: "length (notnull xs) = length (filter (\<lambda>b. \<not> b) (map (\<lambda>x. x = None) xs))" for xs :: "'a option list"
    by (induction xs) (auto simp: notnull_def)
  show ?thesis
    by (cases s) (simp_all add: count_notnull_def n)
qed


lemma sum_list_nonneg_rat: "\<forall>x \<in> set xs. (0::rat) \<le> x \<Longrightarrow> 0 \<le> sum_list xs"
  by (induction xs) simp_all

lemma sum_list_le_length:
  "\<forall>x \<in> set xs. f x \<le> (1::rat) \<Longrightarrow> sum_list (map f xs) \<le> of_nat (length xs)"
  by (induction xs) (simp_all add: add_mono)

lemma mean_bool_map:
  assumes "xs \<noteq> []"
  shows "mean_bool (map P xs) = Some (of_nat (length (filter P xs)) / of_nat (length xs))"
  using assms by (simp add: mean_bool_def comp_def)

lemma mean_bool_range:
  assumes "mean_bool bs = Some v"
  shows "0 \<le> v \<and> v \<le> 1"
proof -
  have "bs \<noteq> []"
    using assms by (auto simp: mean_bool_def)
  moreover have "length (filter (\<lambda>b. b) bs) \<le> length bs"
    by (rule length_filter_le)
  ultimately show ?thesis
    using assms by (auto simp: mean_bool_def divide_le_eq_1)
qed


lemma mean_float_all_nan: "list_all (\<lambda>x. x = None) xs \<Longrightarrow> mean_float xs = None"
  by (induction xs) (auto simp: mean_float_def)

lemma mean_float_nonneg:
  assumes "\<forall>x \<in> set xs. \<forall>v. x = Some v \<longrightarrow> 0 \<le> v" and "mean_float xs = Some m"
  shows "0 \<le> m"
proof -
  have "\<forall>v \<in> set (List.map_filter (\<lambda>x. x) xs). 0 \<le> v"
    using assms(1) by (auto simp: List.map_filter_def)
  then have "0 \<le> sum_list (List.map_filter (\<lambda>x. x) xs)"
    by (rule sum_list_nonneg_rat)
  then show ?thesis
    using assms(2) by (auto simp: mean_float_def Let_def split: if_splits)
qed

lemma round_half_even_of_int: "round_half_even (of_int n) = n"
  by (simp add: round_half_even_def)

lemma round_half_even_le:
  assumes "x \<le> of_int n"
  shows "round_half_even x \<le> n"
proof -
  have f: "\<lfloor>x\<rfloor> \<le> n"
    using assms by (simp add: floor_le_iff)
  show ?thesis
  proof (cases "x - of_int \<lfloor>x\<rfloor> < 1 / 2")
    case True
    then show ?thesis using f by (simp add: round_half_even_def Let_def)
  next
    case False
    then have "of_int \<lfloor>x\<rfloor> < (of_int n :: rat)"
      using assms by linarith
    then have "\<lfloor>x\<rfloor> < n"
      by simp
    then show ?thesis
      by (simp add: round_half_even_def Let_def)
  qed
qed

lemma round_half_even_small:
  assumes "0 \<le> x" and "x < 3 / 2"
  shows "max 1 (round_half_even x) = 1"
proof -
  have a: "0 \<le> \<lfloor>x\<rfloor>"
    using assms(1) by simp
  have "x < of_int 2"
    using assms(2) by simp
  then have b: "\<lfloor>x\<rfloor> < 2"
    by (simp only: floor_less_iff)
  consider "\<lfloor>x\<rfloor> = 0" | "\<lfloor>x\<rfloor> = 1"
    using a b by linarith
  then show ?thesis
  proof cases
    case 1
    then show ?thesis by (simp add: round_half_even_def Let_def)
  next
    case 2
    then have "x - of_int \<lfloor>x\<rfloor> < 1 / 2"
      using assms(2) by simp
    then show ?thesis using 2 by (simp add: round_half_even_def Let_def)
  qed
qed

lemma times_five_le: "(x::rat) \<le> 1 \<Longrightarrow> x * 5 \<le> 5"
  by linarith

lemma score_range:
  assumes "x \<le> 5"
  shows "1 \<le> max 1 (round_half_even x) \<and> max 1 (round_half_even x) \<le> 5"
proof -
  have "x \<le> of_int 5"
    using assms by simp
  then have "round_half_even x \<le> 5"
    by (rule round_half_even_le)
  then show ?thesis
    by simp
qed

lemma round1_fifths: "round1 (of_int n / 5) = of_int n / 5"
proof -
  have "(of_int n :: rat) / 5 * 10 = of_int (2 * n)"
    by simp
  then have "round_half_even (of_int n / 5 * 10) = 2 * n"
    by (simp only: round_half_even_of_int)
  then show ?thesis
    by (simp add: round1_def)
qed

subsection \<open>Completude\<close>






subsection \<open>Unicidade\<close>

lemma duplicated_from_nth:
  "duplicated_from seen rs =
     map (\<lambda>i. rs ! i \<in> set seen \<union> set (take i rs)) [0..<length rs]"
proof (induction rs arbitrary: seen)
  case Nil
  then show ?case by simp
next
  case (Cons r rs)
  have "map (\<lambda>i. (r # rs) ! i \<in> set seen \<union> set (take i (r # rs))) [0..<length (r # rs)] =
        (r \<in> set seen) # map (\<lambda>i. rs ! i \<in> set (r # seen) \<union> set (take i rs)) [0..<length rs]"
    by (auto simp: upt_conv_Cons map_Suc_upt [symmetric] simp del: upt_Suc)
  then show ?case
    using Cons.IH [of "r # seen"] by simp
qed

lemma earlier_equal_row:
  assumes "i < length rs"
  shows "rs ! i \<in> set (take i rs) \<longleftrightarrow> (\<exists>j \<in> {0..<i}. rs ! j = rs ! i)"
  using assms by (fastforce simp: in_set_conv_nth)

lemma duplicated_nth:
  "duplicated df = map (\<lambda>i. \<exists>j \<in> {0..<i}. rows df ! j = rows df ! i) [0..<nrows df]"
  unfolding duplicated_def duplicated_from_nth
  using earlier_equal_row [of _ "rows df"] by (simp add: length_rows)

lemma mean_bool_duplicated:
  assumes "0 < nrows df"
  shows "mean_bool (duplicated df) = Some (duplicate_fraction df)"
  using assms
  by (simp add: mean_bool_def duplicated_nth duplicate_fraction_def comp_def)

lemma duplicate_fraction_le_1: "duplicate_fraction df \<le> 1"
proof -
  have "length (filter (\<lambda>i. \<exists>j \<in> {0..<i}. rows df ! j = rows df ! i) [0..<nrows df]) \<le> nrows df"
    using length_filter_le [of _ "[0..<nrows df]"] by simp
  then show ?thesis
    by (cases "nrows df = 0") (simp_all add: duplicate_fraction_def divide_le_eq_1)
qed

lemma duplicate_fraction_distinct:
  assumes "distinct (rows df)"
  shows "duplicate_fraction df = 0"
proof -
  have "\<not> (\<exists>j \<in> {0..<i}. rows df ! j = rows df ! i)" if "i < nrows df" for i
    using that assms by (auto simp: nth_eq_iff_index_eq length_rows)
  then have "filter (\<lambda>i. \<exists>j \<in> {0..<i}. rows df ! j = rows df ! i) [0..<nrows df] = []"
    by (simp add: filter_empty_conv)
  then show ?thesis
    by (simp add: duplicate_fraction_def)
qed

lemma duplicate_fraction_all_equal:
  assumes "0 < nrows df" and "\<forall>r \<in> set (rows df). r = rows df ! 0"
  shows "duplicate_fraction df = of_nat (nrows df - 1) / of_nat (nrows df)"
proof -
  have eq: "rows df ! i = rows df ! 0" if "i < nrows df" for i
    using that assms(2) by (simp add: length_rows)
  have "(\<exists>j \<in> {0..<i}. rows df ! j = rows df ! i) \<longleftrightarrow> 0 < i" if "i < nrows df" for i
    using that eq [of i] by auto
  then have "filter (\<lambda>i. \<exists>j \<in> {0..<i}. rows df ! j = rows df ! i) [0..<nrows df] =
             filter (\<lambda>i. 0 < i) [0..<nrows df]"
    by (intro filter_cong) simp_all
  also have "\<dots> = [1..<nrows df]"
    using assms(1) by (simp add: upt_conv_Cons [of 0] filter_id_conv)
  finally show ?thesis
    by (simp add: duplicate_fraction_def)
qed

lemma all_equal_fraction:
  assumes "4 \<le> (n::nat)"
  shows "7 / 10 < (of_nat (n - 1) :: rat) / of_nat n"
proof -
  have "(7::rat) * of_nat n < 10 * of_nat (n - 1)"
  proof -
    have "7 * n < 10 * (n - 1)" using assms by simp
    then have "(of_nat (7 * n) :: rat) < of_nat (10 * (n - 1))"
      by (simp only: of_nat_less_iff)
    then show ?thesis by simp
  qed
  then show ?thesis
    using assms by (simp add: field_simps)
qed

text \<open>
  Claim C3: on a data frame with at least one row, the Unicidade score is
  \<open>max(1, round((1 - f) * 100 / 20))\<close> for the fraction \<open>f\<close> of duplicated rows, and the
  diagnostic is the single flag message when \<open>f > 0.2\<close> and empty otherwise. A frame
  without duplicated rows scores 5. The first row of a frame is never a duplicate, so \<open>f\<close>
  stays below 1: \<open>k\<close> equal rows have \<open>f = (k - 1) / k\<close>. As \<open>f\<close> tends to 1 the score is 1:
  it is 1 as soon as \<open>f\<close> exceeds 0.7, in particular on every frame of four or more rows
  that are all equal (two or three equal rows have \<open>f\<close> at 1/2 and 2/3, below that bound).
\<close>

theorem unicidade_score:
  assumes "0 < nrows df"
  shows "unicidade df =
           Inr (max 1 (round_half_even ((1 - duplicate_fraction df) * 100 / 20)),
                if 2 / 10 < duplicate_fraction df then [muitos_duplicados] else [])
    \<and> (distinct (rows df) \<longrightarrow> unicidade df = Inr (5, []))
    \<and> (7 / 10 < duplicate_fraction df \<longrightarrow> unicidade df = Inr (1, [muitos_duplicados]))
    \<and> ((\<forall>r \<in> set (rows df). r = rows df ! 0) \<and> 4 \<le> nrows df \<longrightarrow>
          unicidade df = Inr (1, [muitos_duplicados]))"
proof -
  have main: "unicidade df =
           Inr (max 1 (round_half_even ((1 - duplicate_fraction df) * 100 / 20)),
                if 2 / 10 < duplicate_fraction df then [muitos_duplicados] else [])"
    by (simp add: unicidade_def mean_bool_duplicated [OF assms] fgt_def fsub_def fmul_def
        fdiv_def py_round_def)
  have none: "unicidade df = Inr (5, [])" if "distinct (rows df)"
  proof -
    have "round_half_even (of_int 5) = 5"
      by (rule round_half_even_of_int)
    then show ?thesis
      by (simp add: main duplicate_fraction_distinct [OF that])
  qed
  have many: "unicidade df = Inr (1, [muitos_duplicados])" if "7 / 10 < duplicate_fraction df"
  proof -
    have "0 \<le> (1 - duplicate_fraction df) * 100 / 20"
      using duplicate_fraction_le_1 [of df] by simp
    moreover have "(1 - duplicate_fraction df) * 100 / 20 < 3 / 2"
      using that by simp
    ultimately have "max 1 (round_half_even ((1 - duplicate_fraction df) * 100 / 20)) = 1"
      by (rule round_half_even_small)
    then show ?thesis
      using that by (simp add: main)
  qed
  have same: "unicidade df = Inr (1, [muitos_duplicados])"
    if "\<forall>r \<in> set (rows df). r = rows df ! 0" and "4 \<le> nrows df"
  proof -
    have "7 / 10 < duplicate_fraction df"
      unfolding duplicate_fraction_all_equal [OF assms that(1)]
      by (rule all_equal_fraction [OF that(2)])
    then show ?thesis
      by (rule many)
  qed
  show ?thesis
    using main none many same by blast
qed

theorem unicidade_score_witness:
  "0 < nrows df_unicos \<and> distinct (rows df_unicos) \<and> unicidade df_unicos = Inr (5, [])
   \<and> 0 < nrows df_repetidos \<and> 4 \<le> nrows df_repetidos
   \<and> duplicate_fraction df_repetidos = 3 / 4
   \<and> unicidade df_repetidos = Inr (1, [muitos_duplicados])"
proof -
  have a: "0 < nrows df_unicos"
    by code_simp
  have b: "distinct (rows df_unicos)"
    by code_simp
  have c: "0 < nrows df_repetidos" "4 \<le> nrows df_repetidos"
    by code_simp+
  have d: "duplicate_fraction df_repetidos = 3 / 4"
    by code_simp
  have e: "\<forall>r \<in> set (rows df_repetidos). r = rows df_repetidos ! 0"
    by code_simp
  have f: "unicidade df_unicos = Inr (5, [])"
    using unicidade_score [OF a] b by blast
  have g: "unicidade df_repetidos = Inr (1, [muitos_duplicados])"
    using unicidade_score [OF c(1)] c(2) e by blast
  show ?thesis
    using a b c d f g by blast
qed

subsection \<open>Consistencia\<close>

lemma frac_gt_tenth:
  assumes "0 < (n::nat)"
  shows "1 / 10 < (of_nat k :: rat) / of_nat n \<longleftrightarrow> n < 10 * k"
proof -
  have "1 / 10 < (of_nat k :: rat) / of_nat n \<longleftrightarrow> (of_nat n :: rat) < of_nat (10 * k)"
    using assms by (simp add: field_simps)
  also have "\<dots> \<longleftrightarrow> n < 10 * k"
    by (simp only: of_nat_less_iff)
  finally show ?thesis .
qed

lemma frac_gt_half:
  assumes "0 < (n::nat)"
  shows "1 / 2 < (of_nat k :: rat) / of_nat n \<longleftrightarrow> n < 2 * k"
proof -
  have "1 / 2 < (of_nat k :: rat) / of_nat n \<longleftrightarrow> (of_nat n :: rat) < of_nat (2 * k)"
    using assms by (simp add: field_simps)
  also have "\<dots> \<longleftrightarrow> n < 2 * k"
    by (simp only: of_nat_less_iff)
  finally show ?thesis .
qed

lemma mean_bool_gt_half:
  "fgt (mean_bool (map P xs)) (1 / 2) \<longleftrightarrow> 0 < length xs \<and> length xs < 2 * length (filter P xs)"
proof (cases "xs = []")
  case True
  then show ?thesis by (simp add: mean_bool_def fgt_def)
next
  case False
  then have n: "0 < length xs" by simp
  have "fgt (mean_bool (map P xs)) (1 / 2) \<longleftrightarrow>
        1 / 2 < (of_nat (length (filter P xs)) :: rat) / of_nat (length xs)"
    unfolding mean_bool_map [OF False] by (simp add: fgt_def)
  also have "\<dots> \<longleftrightarrow> length xs < 2 * length (filter P xs)"
    by (rule frac_gt_half [OF n])
  finally show ?thesis
    using n by simp
qed

lemma coluna_inconsistente_flagged: "coluna_inconsistente L c = flagged L c"
proof (cases "count_notnull (col_data c) = 0")
  case True
  then have "dropna_astype_str L (col_data c) = []"
    using length_dropna_astype_str [of L "col_data c"] by simp
  then show ?thesis
    using True by (simp add: coluna_inconsistente_def flagged_def)
next
  case False
  let ?vs = "map strip (dropna_astype_str L (col_data c))"
  have n: "0 < length ?vs"
    using False by (simp add: length_dropna_astype_str)
  have num: "1 / 10 < (of_nat (length (filter (\<lambda>v. \<not> match_numero v) ?vs)) :: rat) / of_nat (length ?vs)
      \<longleftrightarrow> length ?vs < 10 * length (filter (\<lambda>v. \<not> match_numero v) ?vs)"
    by (rule frac_gt_tenth [OF n])
  have dat: "1 / 10 < (of_nat (length (filter (\<lambda>v. \<not> match_data v) ?vs)) :: rat) / of_nat (length ?vs)
      \<longleftrightarrow> length ?vs < 10 * length (filter (\<lambda>v. \<not> match_data v) ?vs)"
    by (rule frac_gt_tenth [OF n])
  have obj: "fgt (mean_bool (map P ?vs)) (1 / 2) \<longleftrightarrow> length ?vs < 2 * length (filter P ?vs)" for P
    using mean_bool_gt_half [of P ?vs] n by simp
  have lhs: "coluna_inconsistente L c =
     (case declared_type (col_data c) of
        Numeric \<Rightarrow> length ?vs < 10 * length (filter (\<lambda>v. \<not> match_numero v) ?vs)
      | Temporal \<Rightarrow> length ?vs < 10 * length (filter (\<lambda>v. \<not> match_data v) ?vs)
      | Textual \<Rightarrow> length ?vs < 2 * length (filter match_numero ?vs)
                    \<or> length ?vs < 2 * length (filter match_data ?vs))"
    unfolding coluna_inconsistente_def Let_def num dat obj
    using False by (cases "col_data c") simp_all
  show ?thesis
    unfolding lhs flagged_def Let_def using n by simp
qed

text \<open>
  Claim C5: on a data frame with at least one column, the Consistencia score is
  \<open>max(1, round((1 - flagged_count / total_columns) * 5))\<close> and the diagnostic is the list
  of flagged column names, in column order; a column without a non-null value is never
  flagged.
\<close>

theorem consistencia_score:
  assumes "df \<noteq> []"
  shows "consistencia L df =
           Inr (max 1 (round_half_even
                         ((1 - of_nat (length (filter (flagged L) df)) / of_nat (length df)) * 5)),
                map col_name (filter (flagged L) df))
    \<and> (\<forall>c \<in> set df. count_notnull (col_data c) = 0 \<longrightarrow> \<not> flagged L c)"
proof -
  have f: "filter (coluna_inconsistente L) df = filter (flagged L) df"
    by (simp add: coluna_inconsistente_flagged cong: filter_cong)
  have a: "consistencia L df =
           Inr (max 1 (round_half_even
                         ((1 - of_nat (length (filter (flagged L) df)) / of_nat (length df)) * 5)),
                map col_name (filter (flagged L) df))"
    using assms by (simp add: consistencia_def f truediv_def)
  have b: "\<not> flagged L c" if "count_notnull (col_data c) = 0" for c
  proof -
    have "dropna_astype_str L (col_data c) = []"
      using that length_dropna_astype_str [of L "col_data c"] by simp
    then show ?thesis
      by (simp add: flagged_def)
  qed
  show ?thesis
    using a b by blast
qed

theorem consistencia_score_witness:
  "df_tipos \<noteq> []
   \<and> map (flagged lib0) df_tipos = [True, False, True, False, False, False]
   \<and> count_notnull (col_data (df_tipos ! 4)) = 0
   \<and> consistencia lib0 df_tipos = Inr (3, [''ativo'', ''codigo''])"
proof -
  have a: "df_tipos \<noteq> []"
    by (simp add: df_tipos_def)
  have b: "map (flagged lib0) df_tipos = [True, False, True, False, False, False]"
    by code_simp
  have c: "count_notnull (col_data (df_tipos ! 4)) = 0"
    by code_simp
  have d: "Inr (max 1 (round_half_even
                         ((1 - of_nat (length (filter (flagged lib0) df_tipos))
                               / of_nat (length df_tipos)) * 5)),
                map col_name (filter (flagged lib0) df_tipos))
           = (Inr (3, [''ativo'', ''codigo'']) :: error + int \<times> string list)"
    by code_simp
  have e: "consistencia lib0 df_tipos = Inr (3, [''ativo'', ''codigo''])"
    using consistencia_score [OF a, of lib0] d by simp
  show ?thesis
    using a b c e by blast
qed

subsection \<open>Precisao\<close>







subsection \<open>Integridade: the checks of a textual column\<close>

lemma msgs_distinct:
  "capitalizacao_inconsistente \<noteq> tamanhos_inconsistentes"
  "capitalizacao_inconsistente \<noteq> tamanho_incorreto col"
  "capitalizacao_inconsistente \<noteq> datas_fora_do_padrao"
  "tamanho_incorreto col \<noteq> tamanhos_inconsistentes"
  "tamanho_incorreto col \<noteq> datas_fora_do_padrao"
  "tamanhos_inconsistentes \<noteq> datas_fora_do_padrao"
  by (simp_all add: capitalizacao_inconsistente_def tamanhos_inconsistentes_def
      tamanho_incorreto_def datas_fora_do_padrao_def)


lemma problemas_check_datas:
  "col_problemas (check_datas cl s st) = col_problemas st
   \<or> col_problemas (check_datas cl s st) = col_problemas st @ [datas_fora_do_padrao]"
  by (simp add: check_datas_def add_check_def add_pass_def add_problema_def)

lemma check_capitalizacao_st0:
  "check_capitalizacao s \<lparr>col_checks = 0, col_passes = 0, col_problemas = []\<rparr> =
     (if (\<exists>v \<in> set s. islower v) \<or> (\<exists>v \<in> set s. isupper v)
      then \<lparr>col_checks = 1, col_passes = 0, col_problemas = [capitalizacao_inconsistente]\<rparr>
      else \<lparr>col_checks = 1, col_passes = 1, col_problemas = []\<rparr>)"
  by (simp add: check_capitalizacao_def add_check_def add_pass_def add_problema_def list_ex_iff)

lemma avaliar_coluna_object:
  "is_object_dtype (col_data c) \<Longrightarrow>
   avaliar_coluna L g c =
     check_datas (lower (col_name c)) (amostra L g (col_data c))
       (check_codigos (col_name c) (lower (col_name c)) (amostra L g (col_data c))
          (check_capitalizacao (amostra L g (col_data c))
             \<lparr>col_checks = 0, col_passes = 0, col_problemas = []\<rparr>))"
  by (cases "col_data c") (simp_all add: avaliar_coluna_def Let_def)


text \<open>When the library's permutation stays within the index, the sample is drawn from the
  non-null values of the column.\<close>

lemma amostra_values:
  assumes "\<forall>i \<in> set (permutation L 42 (length (dropna_astype_str L serie))).
             i < length (dropna_astype_str L serie)"
  shows "set (amostra L g serie) \<subseteq> set (dropna_astype_str L serie)"
  using assms by (auto simp: amostra_def sample_pd_def Let_def dest!: in_set_takeD)




lemma check_codigos_id:
  assumes "any_in [''id'', ''cod'', ''cd''] cl"
  shows "check_codigos col cl s st =
     add_check (if 1 < nunique (map length (map (filter is_digit) s))
                then add_problema tamanhos_inconsistentes st else add_pass st)"
proof -
  have "any_in [''cpf'', ''cnpj'', ''telefone'', ''cep'', ''id'', ''cod'', ''cd''] cl"
    using assms by (auto simp: any_in_def)
  then show ?thesis
    using assms by (simp add: check_codigos_def Let_def)
qed

lemma expected_length_known:
  "any_in [''cpf'', ''cnpj'', ''cep'', ''telefone''] cl \<Longrightarrow>
   expected_length cl \<in> {Some 11, Some 14, Some 8, Some 10}"
  by (auto simp: any_in_def expected_length_def)

text \<open>
  Claim C10: a textual column whose lowercase name contains one of \<open>id\<close>, \<open>cod\<close>, \<open>cd\<close> and
  also one of \<open>cpf\<close>, \<open>cnpj\<close>, \<open>cep\<close>, \<open>telefone\<close> (so that an expected digit length is
  known) gets only the length-consistency check: it fails exactly when the digit-stripped
  sampled values have more than one distinct length, the problem \<open>tamanho incorreto\<close> of
  the expected-length check never appears for the column, and when all stripped lengths
  are equal the check passes whatever the expected length is.
\<close>

theorem id_keyword_shadows_expected_length:
  assumes "is_object_dtype (col_data c)"
    and "any_in [''id'', ''cod'', ''cd''] (lower (col_name c))"
    and "any_in [''cpf'', ''cnpj'', ''cep'', ''telefone''] (lower (col_name c))"
  shows "expected_length (lower (col_name c)) \<in> {Some 11, Some 14, Some 8, Some 10}
    \<and> check_codigos (col_name c) (lower (col_name c)) (amostra L g (col_data c)) st =
           add_check
             (if 1 < nunique (map length (map (filter is_digit) (amostra L g (col_data c))))
              then add_problema tamanhos_inconsistentes st else add_pass st)
    \<and> tamanho_incorreto (col_name c) \<notin> set (col_problemas (avaliar_coluna L g c))
    \<and> (nunique (map length (map (filter is_digit) (amostra L g (col_data c)))) \<le> 1 \<longrightarrow>
         tamanhos_inconsistentes \<notin> set (col_problemas (avaliar_coluna L g c))
         \<and> check_codigos (col_name c) (lower (col_name c)) (amostra L g (col_data c)) st =
             add_check (add_pass st))"
proof -
  let ?s = "amostra L g (col_data c)"
  let ?cl = "lower (col_name c)"
  let ?st1 = "check_capitalizacao ?s \<lparr>col_checks = 0, col_passes = 0, col_problemas = []\<rparr>"
  let ?st2 = "check_codigos (col_name c) ?cl ?s ?st1"
  have fin: "avaliar_coluna L g c = check_datas ?cl ?s ?st2"
    using assms(1) by (rule avaliar_coluna_object)
  have cod: "\<And>st. check_codigos (col_name c) ?cl ?s st =
           add_check
             (if 1 < nunique (map length (map (filter is_digit) ?s))
              then add_problema tamanhos_inconsistentes st else add_pass st)"
    using assms(2) by (rule check_codigos_id)
  have p1: "set (col_problemas ?st1) \<subseteq> {capitalizacao_inconsistente}"
    by (simp add: check_capitalizacao_st0)
  have p2: "col_problemas ?st2 =
      (if 1 < nunique (map length (map (filter is_digit) ?s))
       then col_problemas ?st1 @ [tamanhos_inconsistentes] else col_problemas ?st1)"
    by (simp add: cod add_check_def add_problema_def add_pass_def)
  have d: "\<And>m. m \<noteq> datas_fora_do_padrao \<Longrightarrow>
      m \<in> set (col_problemas (avaliar_coluna L g c)) \<longleftrightarrow> m \<in> set (col_problemas ?st2)"
    using problemas_check_datas [of ?cl ?s ?st2] unfolding fin by auto
  have t1: "tamanho_incorreto (col_name c) \<notin> set (col_problemas ?st1)"
    using p1 msgs_distinct(2) [of "col_name c"] by auto
  have t2: "tamanhos_inconsistentes \<notin> set (col_problemas ?st1)"
    using p1 msgs_distinct(1) by auto
  have a: "tamanho_incorreto (col_name c) \<notin> set (col_problemas (avaliar_coluna L g c))"
    using d [OF msgs_distinct(5)] t1 msgs_distinct(4) [of "col_name c"] by (simp add: p2)
  have b: "tamanhos_inconsistentes \<notin> set (col_problemas (avaliar_coluna L g c))"
    if "nunique (map length (map (filter is_digit) ?s)) \<le> 1"
    using that d [OF msgs_distinct(6)] t2 by (simp add: p2)
  show ?thesis
    using a b cod expected_length_known [OF assms(3)] by simp
qed

theorem id_keyword_shadows_expected_length_witness:
  "is_object_dtype (col_data col_cpf_id)
   \<and> any_in [''id'', ''cod'', ''cd''] (lower (col_name col_cpf_id))
   \<and> any_in [''cpf'', ''cnpj'', ''cep'', ''telefone''] (lower (col_name col_cpf_id))
   \<and> expected_length (lower (col_name col_cpf_id)) = Some 11
   \<and> map (filter is_digit) (amostra lib0 0 (col_data col_cpf_id)) = [''123'', ''456'']
   \<and> tamanho_incorreto (col_name col_cpf_id)
        \<notin> set (col_problemas (avaliar_coluna lib0 0 col_cpf_id))
   \<and> tamanhos_inconsistentes \<notin> set (col_problemas (avaliar_coluna lib0 0 col_cpf_id))"
proof -
  have a: "is_object_dtype (col_data col_cpf_id)"
    by (simp add: col_cpf_id_def)
  have b: "any_in [''id'', ''cod'', ''cd''] (lower (col_name col_cpf_id))"
    by code_simp
  have c: "any_in [''cpf'', ''cnpj'', ''cep'', ''telefone''] (lower (col_name col_cpf_id))"
    by code_simp
  have d: "expected_length (lower (col_name col_cpf_id)) = Some 11"
    by code_simp
  have e: "map (filter is_digit) (amostra lib0 0 (col_data col_cpf_id)) = [''123'', ''456'']"
    by code_simp
  have f: "nunique (map length (map (filter is_digit) (amostra lib0 0 (col_data col_cpf_id)))) \<le> 1"
    by code_simp
  show ?thesis
    using id_keyword_shadows_expected_length [OF a b c, of lib0 0] a b c d e f by simp
qed

subsection \<open>Integridade: score and diagnostic\<close>

lemma balanced_step:
  assumes "balanced st"
  shows "balanced (add_check (add_pass st))" and "balanced (add_check (add_problema m st))"
  using assms by (simp_all add: balanced_def add_check_def add_pass_def add_problema_def)

lemma balanced_check_negativos: "balanced st \<Longrightarrow> balanced (check_negativos cl s st)"
  by (simp add: check_negativos_def balanced_step)

lemma balanced_check_binario: "balanced st \<Longrightarrow> balanced (check_binario cl s st)"
  by (simp add: check_binario_def balanced_step)

lemma balanced_check_capitalizacao: "balanced st \<Longrightarrow> balanced (check_capitalizacao s st)"
  by (simp add: check_capitalizacao_def balanced_step)

lemma balanced_check_datas: "balanced st \<Longrightarrow> balanced (check_datas cl s st)"
  by (simp add: check_datas_def balanced_step)

lemma expected_length_document:
  assumes "any_in [''cpf'', ''cnpj'', ''telefone'', ''cep'', ''id'', ''cod'', ''cd''] cl"
    and "\<not> any_in [''id'', ''cod'', ''cd''] cl"
  shows "\<exists>n. expected_length cl = Some n \<and> n \<noteq> 0"
  using assms by (auto simp: any_in_def expected_length_def)

lemma balanced_check_codigos:
  assumes "balanced st"
  shows "balanced (check_codigos col cl s st)"
proof (cases "any_in [''cpf'', ''cnpj'', ''telefone'', ''cep'', ''id'', ''cod'', ''cd''] cl")
  case False
  then show ?thesis using assms by (simp add: check_codigos_def)
next
  case True
  show ?thesis
  proof (cases "any_in [''id'', ''cod'', ''cd''] cl")
    case id: True
    then show ?thesis
      using True assms by (simp add: check_codigos_def Let_def balanced_step)
  next
    case doc: False
    from expected_length_document [OF True doc]
    obtain n where "expected_length cl = Some n" and "n \<noteq> 0"
      by blast
    then show ?thesis
      using True doc assms by (simp add: check_codigos_def Let_def balanced_step)
  qed
qed

lemma balanced_avaliar_coluna: "balanced (avaliar_coluna L g c)"
proof -
  have z: "balanced \<lparr>col_checks = 0, col_passes = 0, col_problemas = []\<rparr>"
    by (simp add: balanced_def)
  show ?thesis
    unfolding avaliar_coluna_def Let_def
    by (simp add: z balanced_check_negativos balanced_check_binario balanced_check_capitalizacao
        balanced_check_codigos balanced_check_datas balanced_step)
qed

lemma problemas_iff_failed:
  "col_problemas (avaliar_coluna L g c) \<noteq> [] \<longleftrightarrow> 1 \<le> failed_checks L g c"
  using balanced_avaliar_coluna [of L g c]
  by (cases "col_problemas (avaliar_coluna L g c)") (simp_all add: balanced_def failed_checks_def)

lemma failed_checked:
  "1 \<le> failed_checks L g c \<Longrightarrow> 0 < col_checks (avaliar_coluna L g c)"
  by (simp add: failed_checks_def)

lemma integridade_loop_acc:
  "integridade_loop L g cs (s, t, d) =
     (s + sum_list (map (sub_score L g) (checked_columns L g cs)),
      t + length (checked_columns L g cs),
      d @ map (\<lambda>c. detalhe (col_name c) (col_problemas (avaliar_coluna L g c)))
            (filter (\<lambda>c. 1 \<le> failed_checks L g c) cs))"
proof (induction cs arbitrary: s t d)
  case Nil
  then show ?case by (simp add: checked_columns_def)
next
  case (Cons c cs)
  show ?case
  proof (cases "0 < col_checks (avaliar_coluna L g c)")
    case True
    then show ?thesis
      using problemas_iff_failed [of L g c]
      by (simp add: Cons.IH checked_columns_def sub_score_def Let_def add.assoc)
  next
    case False
    then have "\<not> 1 \<le> failed_checks L g c"
      using failed_checked [of L g c] by auto
    then show ?thesis
      using False by (simp add: Cons.IH checked_columns_def Let_def)
  qed
qed

lemma integridade_eq_spec: "integridade L g df = integridade_spec L g df"
proof -
  have "checked_columns L g df = [] \<longleftrightarrow> length (checked_columns L g df) = 0"
    by simp
  then show ?thesis
    unfolding integridade_def integridade_loop_acc integridade_spec_def
    by (simp add: detalhe_def)
qed



subsection \<open>Score ranges\<close>

lemma completude_range:
  assumes "completude df = Inr (s, d)"
  shows "1 \<le> s \<and> s \<le> 5"
proof -
  obtain m where m: "mean_float (map snd (null_pct df)) = Some m"
    using assms
    by (cases "mean_float (map snd (null_pct df))")
      (simp_all add: completude_def fsub_def fmul_def fdiv_def py_round_def)
  have "\<forall>x \<in> set (map snd (null_pct df)). \<forall>v. x = Some v \<longrightarrow> 0 \<le> v"
    using mean_bool_range by (auto simp: null_pct_def)
  then have "0 \<le> m"
    using m by (rule mean_float_nonneg)
  then have "(1 - m) * 100 / 20 \<le> 5"
    by simp
  then have "1 \<le> max 1 (round_half_even ((1 - m) * 100 / 20))
      \<and> max 1 (round_half_even ((1 - m) * 100 / 20)) \<le> 5"
    by (rule score_range)
  moreover have "s = max 1 (round_half_even ((1 - m) * 100 / 20))"
    using assms by (simp add: completude_def m fsub_def fmul_def fdiv_def py_round_def)
  ultimately show ?thesis
    by simp
qed

lemma unicidade_range:
  assumes "unicidade df = Inr (s, d)"
  shows "1 \<le> s \<and> s \<le> 5"
proof -
  obtain m where m: "mean_bool (duplicated df) = Some m"
    using assms
    by (cases "mean_bool (duplicated df)")
      (simp_all add: unicidade_def fsub_def fmul_def fdiv_def py_round_def)
  have "0 \<le> m"
    using mean_bool_range [OF m] by simp
  then have "(1 - m) * 100 / 20 \<le> 5"
    by simp
  then have "1 \<le> max 1 (round_half_even ((1 - m) * 100 / 20))
      \<and> max 1 (round_half_even ((1 - m) * 100 / 20)) \<le> 5"
    by (rule score_range)
  moreover have "s = max 1 (round_half_even ((1 - m) * 100 / 20))"
    using assms by (simp add: unicidade_def m fsub_def fmul_def fdiv_def py_round_def)
  ultimately show ?thesis
    by simp
qed

lemma consistencia_range:
  assumes "consistencia L df = Inr (s, d)"
  shows "1 \<le> s \<and> s \<le> 5"
proof -
  let ?q = "(of_nat (length (filter (coluna_inconsistente L) df)) :: rat) / of_nat (length df)"
  have ne: "length df \<noteq> 0"
    using assms by (auto simp: consistencia_def truediv_def split: if_splits)
  have "0 \<le> ?q"
    by simp
  then have "(1 - ?q) * 5 \<le> 5"
    by simp
  then have "1 \<le> max 1 (round_half_even ((1 - ?q) * 5))
      \<and> max 1 (round_half_even ((1 - ?q) * 5)) \<le> 5"
    by (rule score_range)
  moreover have "s = max 1 (round_half_even ((1 - ?q) * 5))"
    using assms ne by (simp add: consistencia_def truediv_def)
  ultimately show ?thesis
    by simp
qed

lemma precisao_loop_bound:
  assumes "precisao_loop cs (oc, sc) = (oc', Some s')"
  shows "\<exists>s. sc = Some s \<and> s' \<le> s + of_nat (length cs)"
  using assms
proof (induction cs arbitrary: oc sc)
  case Nil
  then show ?case by simp
next
  case (Cons c cs)
  let ?m = "mean_bool (outliers (col_data c))"
  from Cons.prems obtain oc2 where
    "precisao_loop cs (oc2, fadd sc (fsub 1 ?m)) = (oc', Some s')"
    by (simp add: Let_def)
  from Cons.IH [OF this] obtain t where t: "fadd sc (fsub 1 ?m) = Some t"
    and le: "s' \<le> t + of_nat (length cs)"
    by blast
  from t obtain s v where s: "sc = Some s" and v: "?m = Some v" and tv: "t = s + (1 - v)"
    by (cases sc; cases ?m) (auto simp: fadd_def fsub_def)
  have "0 \<le> v"
    using mean_bool_range [OF v] by simp
  then show ?case
    using s tv le by simp
qed

lemma precisao_range:
  assumes "precisao df = Inr (s, d)"
  shows "1 \<le> s \<and> s \<le> 5"
proof (cases "filter (\<lambda>c. is_np_number (col_data c)) df = []")
  case True
  then show ?thesis
    using assms by (simp add: precisao_def)
next
  case False
  let ?nc = "filter (\<lambda>c. is_np_number (col_data c)) df"
  obtain oc sc where l: "precisao_loop ?nc ([], Some 0) = (oc, sc)"
    by (cases "precisao_loop ?nc ([], Some 0)") auto
  obtain s' where s': "sc = Some s'"
    using assms False l
    by (cases sc) (simp_all add: precisao_def Let_def fdiv_def fmul_def py_round_def)
  have "s' \<le> of_nat (length ?nc)"
    using precisao_loop_bound [of ?nc "[]" "Some 0" oc s'] l s' by simp
  moreover have "0 < (of_nat (length ?nc) :: rat)"
    using False by simp
  ultimately have "s' / of_nat (length ?nc) \<le> 1"
    by (simp add: divide_le_eq_1)
  then have "s' / of_nat (length ?nc) * 5 \<le> 5"
    by (rule times_five_le)
  then have "1 \<le> max 1 (round_half_even (s' / of_nat (length ?nc) * 5))
      \<and> max 1 (round_half_even (s' / of_nat (length ?nc) * 5)) \<le> 5"
    by (rule score_range)
  moreover have "s = max 1 (round_half_even (s' / of_nat (length ?nc) * 5))"
    using assms False l s' by (simp add: precisao_def Let_def fdiv_def fmul_def py_round_def)
  ultimately show ?thesis
    by simp
qed

lemma sub_score_le_1:
  assumes "c \<in> set (checked_columns L g df)"
  shows "sub_score L g c \<le> 1"
proof -
  have "col_passes (avaliar_coluna L g c) \<le> col_checks (avaliar_coluna L g c)"
    using balanced_avaliar_coluna [of L g c] by (simp add: balanced_def)
  moreover have "0 < col_checks (avaliar_coluna L g c)"
    using assms by (simp add: checked_columns_def)
  ultimately show ?thesis
    by (simp add: sub_score_def divide_le_eq_1)
qed

lemma integridade_range:
  assumes "integridade L g df = (s, d)"
  shows "1 \<le> s \<and> s \<le> 5"
proof (cases "checked_columns L g df = []")
  case True
  then show ?thesis
    using assms by (simp add: integridade_eq_spec integridade_spec_def)
next
  case False
  let ?cs = "checked_columns L g df"
  have "sum_list (map (sub_score L g) ?cs) \<le> of_nat (length ?cs)"
    using sub_score_le_1 [of _ L g df] by (intro sum_list_le_length) blast
  moreover have "0 < (of_nat (length ?cs) :: rat)"
    using False by simp
  ultimately have "sum_list (map (sub_score L g) ?cs) / of_nat (length ?cs) \<le> 1"
    by (simp add: divide_le_eq_1)
  then have "sum_list (map (sub_score L g) ?cs) / of_nat (length ?cs) * 5 \<le> 5"
    by (rule times_five_le)
  then have "1 \<le> max 1 (round_half_even (sum_list (map (sub_score L g) ?cs) / of_nat (length ?cs) * 5))
      \<and> max 1 (round_half_even (sum_list (map (sub_score L g) ?cs) / of_nat (length ?cs) * 5)) \<le> 5"
    by (rule score_range)
  moreover have "s = max 1 (round_half_even (sum_list (map (sub_score L g) ?cs) / of_nat (length ?cs) * 5))"
    using assms False by (simp add: integridade_eq_spec integridade_spec_def)
  ultimately show ?thesis
    by simp
qed

text \<open>
  Claim C8: whenever \<open>calcular_scores\<close> returns, each of the five scores is one of
  1, 2, 3, 4, 5, and the overall score, the mean of the five rounded to one decimal,
  lies between 1 and 5 (the mean of five integers has at most one decimal, so the
  rounding leaves it unchanged).
\<close>

theorem scores_in_range:
  assumes "calcular_scores L g df = Inr (sc, dg)"
  shows "(\<forall>s \<in> set (score_values sc). s \<in> {1, 2, 3, 4, 5})
    \<and> score_final sc = of_int (sum_list (score_values sc)) / 5
    \<and> 1 \<le> score_final sc \<and> score_final sc \<le> 5"
proof -
  obtain s1 d1 where c1: "completude df = Inr (s1, d1)"
    using assms by (cases "completude df") (auto simp: calcular_scores_def)
  obtain s2 d2 where c2: "unicidade df = Inr (s2, d2)"
    using assms c1 by (cases "unicidade df") (auto simp: calcular_scores_def)
  obtain s3 d3 where c3: "consistencia L df = Inr (s3, d3)"
    using assms c1 c2 by (cases "consistencia L df") (auto simp: calcular_scores_def)
  obtain s4 d4 where c4: "precisao df = Inr (s4, d4)"
    using assms c1 c2 c3 by (cases "precisao df") (auto simp: calcular_scores_def)
  obtain s5 d5 where c5: "integridade L g df = (s5, d5)"
    by (cases "integridade L g df") auto
  have sc: "score_values sc = [s1, s2, s3, s4, s5]"
    using assms c1 c2 c3 c4 c5 by (auto simp: calcular_scores_def score_values_def)
  note r = completude_range [OF c1] unicidade_range [OF c2] consistencia_range [OF c3]
    precisao_range [OF c4] integridade_range [OF c5]
  have each: "\<forall>s \<in> set (score_values sc). s \<in> {1, 2, 3, 4, 5}"
    unfolding sc using r by auto
  have len: "(of_nat (length [s1, s2, s3, s4, s5]) :: rat) = 5"
    by simp
  have fin: "score_final sc = of_int (sum_list (score_values sc)) / 5"
    unfolding score_final_def sc len by (rule round1_fifths)
  have "5 \<le> sum_list (score_values sc)" and "sum_list (score_values sc) \<le> 25"
    unfolding sc using r by simp_all
  then have "(5::rat) \<le> of_int (sum_list (score_values sc))"
    and "(of_int (sum_list (score_values sc)) :: rat) \<le> 25"
    by linarith+
  then have "1 \<le> score_final sc" and "score_final sc \<le> 5"
    unfolding fin by simp_all
  then show ?thesis
    using each fin by blast
qed

theorem scores_in_range_witness:
  "calcular_scores lib0 0 df_regras = Inr (scores_regras, diag_regras)
   \<and> score_values scores_regras = [5, 5, 4, 5, 3]
   \<and> score_final scores_regras = 22 / 5"
proof -
  have a: "calcular_scores lib0 0 df_regras = Inr (scores_regras, diag_regras)"
    by code_simp
  have b: "score_values scores_regras = [5, 5, 4, 5, 3]"
    by code_simp
  have "score_final scores_regras = of_int (sum_list (score_values scores_regras)) / 5"
    using scores_in_range [OF a] by blast
  then have c: "score_final scores_regras = 22 / 5"
    unfolding b by simp
  show ?thesis
    using a b c by blast
qed

subsection \<open>Determinism\<close>

lemma amostra_seed: "amostra L g serie = amostra L g' serie"
  by (simp add: amostra_def sample_pd_def)

lemma avaliar_coluna_seed: "avaliar_coluna L g c = avaliar_coluna L g' c"
  unfolding avaliar_coluna_def amostra_seed [of L g _ g'] by (rule refl)

lemma integridade_loop_seed: "integridade_loop L g cs acc = integridade_loop L g' cs acc"
proof (induction cs arbitrary: acc)
  case Nil
  then show ?case by simp
next
  case (Cons c cs)
  obtain s t d where acc: "acc = (s, t, d)"
    by (cases acc) auto
  show ?case
    unfolding acc using Cons.IH by (simp add: avaliar_coluna_seed [of L g c g'] Let_def)
qed

lemma integridade_seed: "integridade L g df = integridade L g' df"
  by (simp add: integridade_def integridade_loop_seed [of L g df _ g'])

lemma sample_without_seed_uses_state:
  "sample_pd \<lparr>repr_float = r, format_datetime = f, permutation = (\<lambda>s n. if s = 0 then [0, 1] else [1, 0])\<rparr>
      0 [a, b] 1 None = [a]
   \<and> sample_pd \<lparr>repr_float = r, format_datetime = f, permutation = (\<lambda>s n. if s = 0 then [0, 1] else [1, 0])\<rparr>
      1 [a, b] 1 None = [b]"
  by (simp add: sample_pd_def)

text \<open>
  Claim C9: two runs of the evaluation on the same data frame give the same scores and
  diagnostics (or raise the same exception), whatever the state \<open>g\<close>, \<open>g'\<close> of the ambient
  random generator at each run: the only sampling step passes a fixed seed and never
  reads that state. (Without a seed the sample would depend on it, as
  \<open>sample_without_seed_uses_state\<close> shows.)
\<close>

theorem calcular_scores_deterministic:
  "calcular_scores L g df = calcular_scores L g' df"
  unfolding calcular_scores_def integridade_seed [of L g df g'] by (rule refl)

subsection \<open>Empty data frames\<close>

lemma null_pct_no_rows:
  assumes "wf_df df" and "nrows df = 0"
  shows "list_all (\<lambda>x. x = None) (map snd (null_pct df))"
proof -
  have "\<forall>c \<in> set df. length (isnull (col_data c)) = 0"
    using assms by (simp add: wf_df_def list_all_iff length_isnull)
  then have "\<forall>c \<in> set df. isnull (col_data c) = []"
    by simp
  then show ?thesis
    by (auto simp: null_pct_def list_all_iff mean_bool_def)
qed

lemma completude_no_rows:
  assumes "wf_df df" and "nrows df = 0"
  shows "completude df = Inl ValueError"
  using mean_float_all_nan [OF null_pct_no_rows [OF assms]]
  by (simp add: completude_def fsub_def fmul_def fdiv_def py_round_def)

lemma unicidade_no_rows: "nrows df = 0 \<Longrightarrow> unicidade df = Inl ValueError"
  by (simp add: unicidade_def duplicated_def rows_def mean_bool_def fsub_def fmul_def fdiv_def
      py_round_def)

lemma consistencia_no_columns: "consistencia L [] = Inl ZeroDivisionError"
  by (simp add: consistencia_def truediv_def)

lemma guarded_blocks_no_columns: "precisao [] = Inr (5, []) \<and> integridade L g [] = (5, [])"
  by (simp add: precisao_def integridade_def)

text \<open>
  Claim C1 says that on a data frame with zero rows or zero columns every criterion
  returns a safe default and the evaluation completes with five scores. The code does
  not: on every such frame the mean null fraction is NaN, \<open>round\<close> raises in the
  Completude block, and \<open>calcular_scores\<close> returns nothing. (Precisao and Integridade do
  guard their divisions; Completude, Unicidade and Consistencia do not.)
\<close>

theorem calcular_scores_empty_raises:
  assumes "wf_df df" and "nrows df = 0"
  shows "calcular_scores L g df = Inl ValueError"
  using completude_no_rows [OF assms] by (simp add: calcular_scores_def)

theorem calcular_scores_empty_raises_witness:
  "wf_df df_sem_linhas \<and> nrows df_sem_linhas = 0
   \<and> calcular_scores lib0 0 df_sem_linhas = Inl ValueError
   \<and> wf_df [] \<and> nrows [] = 0
   \<and> calcular_scores lib0 0 [] = Inl ValueError"
proof -
  have a: "wf_df df_sem_linhas" "nrows df_sem_linhas = 0"
    by code_simp+
  have b: "wf_df []" "nrows [] = 0"
    by code_simp+
  show ?thesis
    using calcular_scores_empty_raises [OF a, of lib0 0]
      calcular_scores_empty_raises [OF b, of lib0 0] a b
    by blast
qed

end
